theory Spec2Isabelle
  imports Complex_Main
begin

section \<open>Numbers and vectors of the extraction script\<close>

text \<open>
  The script \<^verbatim>\<open>extract-wireframe.mjs\<close> computes with JavaScript numbers. They are
  modelled as the real numbers together with \<open>NaN\<close>: arithmetic on \<open>NaN\<close> gives
  \<open>NaN\<close> and every comparison with \<open>NaN\<close> is false, as in the language. Rounding and
  overflow to an infinity are outside the model: a length, a normal or an angle is the
  exact value here and the nearest double in the script, so the two may differ in the last
  digits. The theorems below relate the values a run computes to what it keeps and
  counts; where they name a particular value of an angle or of a dot product, it is the
  computed one. A read beyond the end of a typed array
  gives \<^verbatim>\<open>undefined\<close>, which every arithmetic operation of the script turns into
  \<open>NaN\<close> and which the serialiser prints like \<open>NaN\<close>; the model reads \<open>NaN\<close> there.
\<close>

datatype jsnum = Fin real | NaN

fun js_add :: "jsnum \<Rightarrow> jsnum \<Rightarrow> jsnum" where
  "js_add (Fin x) (Fin y) = Fin (x + y)"
| "js_add _ _ = NaN"

fun js_sub :: "jsnum \<Rightarrow> jsnum \<Rightarrow> jsnum" where
  "js_sub (Fin x) (Fin y) = Fin (x - y)"
| "js_sub _ _ = NaN"

fun js_mul :: "jsnum \<Rightarrow> jsnum \<Rightarrow> jsnum" where
  "js_mul (Fin x) (Fin y) = Fin (x * y)"
| "js_mul _ _ = NaN"

text \<open>
  The script divides by 2, by 180, by 3 and by a length it has just tested to be positive,
  never by zero; a zero divisor (an infinity or \<open>NaN\<close> in the language) is \<open>NaN\<close> here.
\<close>

fun js_div :: "jsnum \<Rightarrow> jsnum \<Rightarrow> jsnum" where
  "js_div (Fin x) (Fin y) = (if y = 0 then NaN else Fin (x / y))"
| "js_div _ _ = NaN"

fun js_lt :: "jsnum \<Rightarrow> jsnum \<Rightarrow> bool" where
  "js_lt (Fin x) (Fin y) = (x < y)"
| "js_lt _ _ = False"

fun js_gt :: "jsnum \<Rightarrow> jsnum \<Rightarrow> bool" where
  "js_gt (Fin x) (Fin y) = (x > y)"
| "js_gt _ _ = False"

fun js_le :: "jsnum \<Rightarrow> jsnum \<Rightarrow> bool" where
  "js_le (Fin x) (Fin y) = (x \<le> y)"
| "js_le _ _ = False"

fun js_ge :: "jsnum \<Rightarrow> jsnum \<Rightarrow> bool" where
  "js_ge (Fin x) (Fin y) = (x \<ge> y)"
| "js_ge _ _ = False"

fun js_sqrt :: "jsnum \<Rightarrow> jsnum" where
  "js_sqrt (Fin x) = (if x < 0 then NaN else Fin (sqrt x))"
| "js_sqrt NaN = NaN"

fun js_acos :: "jsnum \<Rightarrow> jsnum" where
  "js_acos (Fin x) = (if x < - 1 \<or> 1 < x then NaN else Fin (arccos x))"
| "js_acos NaN = NaN"

fun js_max :: "jsnum \<Rightarrow> jsnum \<Rightarrow> jsnum" where
  "js_max (Fin x) (Fin y) = Fin (max x y)"
| "js_max _ _ = NaN"

fun js_min :: "jsnum \<Rightarrow> jsnum \<Rightarrow> jsnum" where
  "js_min (Fin x) (Fin y) = Fin (min x y)"
| "js_min _ _ = NaN"

definition js_pi :: jsnum where
  "js_pi = Fin pi"

text \<open>A vector is a three-element array \<^verbatim>\<open>[v[0], v[1], v[2]]\<close>.\<close>

type_synonym vec = "jsnum \<times> jsnum \<times> jsnum"

fun sub :: "vec \<Rightarrow> vec \<Rightarrow> vec" where
  "sub (a0, a1, a2) (b0, b1, b2) = (js_sub a0 b0, js_sub a1 b1, js_sub a2 b2)"

fun cross :: "vec \<Rightarrow> vec \<Rightarrow> vec" where
  "cross (a0, a1, a2) (b0, b1, b2) =
     (js_sub (js_mul a1 b2) (js_mul a2 b1),
      js_sub (js_mul a2 b0) (js_mul a0 b2),
      js_sub (js_mul a0 b1) (js_mul a1 b0))"

fun dot :: "vec \<Rightarrow> vec \<Rightarrow> jsnum" where
  "dot (a0, a1, a2) (b0, b1, b2) =
     js_add (js_add (js_mul a0 b0) (js_mul a1 b1)) (js_mul a2 b2)"

fun vecLength :: "vec \<Rightarrow> jsnum" where
  "vecLength (v0, v1, v2) =
     js_sqrt (js_add (js_add (js_mul v0 v0) (js_mul v1 v1)) (js_mul v2 v2))"

fun normalize_vec :: "vec \<Rightarrow> vec" where
  "normalize_vec (v0, v1, v2) =
     (let l = vecLength (v0, v1, v2)
      in if js_gt l (Fin 0) then (js_div v0 l, js_div v1 l, js_div v2 l)
         else (Fin 0, Fin 0, Fin 0))"

definition dist_vec :: "vec \<Rightarrow> vec \<Rightarrow> jsnum" where
  "dist_vec a b = vecLength (sub a b)"

fun midpoint :: "vec \<Rightarrow> vec \<Rightarrow> vec" where
  "midpoint (a0, a1, a2) (b0, b1, b2) =
     (js_div (js_add a0 b0) (Fin 2), js_div (js_add a1 b1) (Fin 2),
      js_div (js_add a2 b2) (Fin 2))"

section \<open>Spatial zones\<close>

record zone =
  name :: string
  xMin :: real
  xMax :: real
  yMin :: real
  yMax :: real
  zMin :: real
  zMax :: real
  threshold :: real
  minLength :: real

text \<open>The table \<^verbatim>\<open>ZONES\<close> of the script, in its order.\<close>

definition ZONES :: "zone list" where
  "ZONES =
    [\<lparr>name = ''Engine Intakes (Right)'',
      xMin = 15, xMax = 38, yMin = 8, yMax = 38, zMin = 95, zMax = 150,
      threshold = 8, minLength = 1 / 2\<rparr>,
     \<lparr>name = ''Engine Intakes (Left)'',
      xMin = 60, xMax = 83, yMin = 8, yMax = 38, zMin = 95, zMax = 150,
      threshold = 10, minLength = 2\<rparr>,
     \<lparr>name = ''Cockpit / Nose'',
      xMin = 35, xMax = 63, yMin = 8, yMax = 38, zMin = 160, zMax = 215,
      threshold = 10, minLength = 4 / 5\<rparr>,
     \<lparr>name = ''Tail / Rudders'',
      xMin = 0, xMax = 98, yMin = 8, yMax = 38, zMin = 19, zMax = 60,
      threshold = 8, minLength = 8\<rparr>,
     \<lparr>name = ''Right Wing'',
      xMin = 0, xMax = 15, yMin = 8, yMax = 38, zMin = 19, zMax = 215,
      threshold = 10, minLength = 4 / 5\<rparr>,
     \<lparr>name = ''Left Wing'',
      xMin = 83, xMax = 98, yMin = 8, yMax = 38, zMin = 19, zMax = 215,
      threshold = 1, minLength = 4 / 5\<rparr>,
     \<lparr>name = ''Engine Exhaust Area'',
      xMin = 15, xMax = 83, yMin = 8, yMax = 22, zMin = 20, zMax = 85,
      threshold = 20, minLength = 2\<rparr>]"

text \<open>
  \<^verbatim>\<open>findZone(point)\<close> walks the module constant \<^verbatim>\<open>ZONES\<close>; the table is the
  first argument here, so that the lookup is stated for every ordered zone list.
  \<open>None\<close> is the script's \<^verbatim>\<open>null\<close>.
\<close>

fun findZone :: "zone list \<Rightarrow> vec \<Rightarrow> zone option" where
  "findZone [] point = None"
| "findZone (zone # rest) (p0, p1, p2) =
     (if js_ge p0 (Fin (xMin zone)) \<and> js_le p0 (Fin (xMax zone)) \<and>
         js_ge p1 (Fin (yMin zone)) \<and> js_le p1 (Fin (yMax zone)) \<and>
         js_ge p2 (Fin (zMin zone)) \<and> js_le p2 (Fin (zMax zone))
      then Some zone
      else findZone rest (p0, p1, p2))"

section \<open>Options of a run\<close>

text \<open>
  The object \<^verbatim>\<open>opts\<close> of \<^verbatim>\<open>parseArgs\<close>. A path option whose value is missing on
  the command line holds \<^verbatim>\<open>undefined\<close>, which is \<open>None\<close> here.
\<close>

record opts =
  inputPath :: "string option"
  outputPath :: "string option"
  threshold :: jsnum
  minLength :: jsnum
  featureLength :: jsnum
  boundary :: bool
  zones :: bool
  stats :: bool

text \<open>The constants the filter loop computes for one edge from its midpoint.\<close>

definition useZones :: "zone list \<Rightarrow> opts \<Rightarrow> bool" where
  "useZones zs os = (opts.zones os \<and> length zs > 0)"

definition edgeZone :: "zone list \<Rightarrow> opts \<Rightarrow> vec \<Rightarrow> zone option" where
  "edgeZone zs os mid = (if useZones zs os then findZone zs mid else None)"

definition zoneName :: "zone list \<Rightarrow> opts \<Rightarrow> vec \<Rightarrow> string" where
  "zoneName zs os mid =
     (case edgeZone zs os mid of Some zone \<Rightarrow> zone.name zone | None \<Rightarrow> ''Fuselage (default)'')"

definition localThreshold :: "zone list \<Rightarrow> opts \<Rightarrow> vec \<Rightarrow> jsnum" where
  "localThreshold zs os mid =
     (case edgeZone zs os mid of Some zone \<Rightarrow> Fin (zone.threshold zone)
      | None \<Rightarrow> opts.threshold os)"

definition localMinLength :: "zone list \<Rightarrow> opts \<Rightarrow> vec \<Rightarrow> jsnum" where
  "localMinLength zs os mid =
     (case edgeZone zs os mid of Some zone \<Rightarrow> Fin (zone.minLength zone)
      | None \<Rightarrow> opts.minLength os)"

definition localThresholdRad :: "zone list \<Rightarrow> opts \<Rightarrow> vec \<Rightarrow> jsnum" where
  "localThresholdRad zs os mid = js_div (js_mul (localThreshold zs os mid) js_pi) (Fin 180)"

text \<open>The initial \<^verbatim>\<open>opts\<close> object of \<^verbatim>\<open>parseArgs\<close>.\<close>

definition defaults :: opts where
  "defaults =
     \<lparr>inputPath = Some ''public/sr71.gltf'', outputPath = Some ''public/sr71-wireframe.json'',
      threshold = Fin (55 / 4), minLength = Fin (9 / 5), featureLength = Fin 35,
      boundary = True, zones = True, stats = False\<rparr>"

section \<open>Edge keys\<close>

text \<open>
  A vertex index as the script holds it: a natural number read from the index array, or
  \<open>None\<close> where the script holds \<^verbatim>\<open>undefined\<close> (a read beyond the end of the
  array) or \<open>NaN\<close> (what \<^verbatim>\<open>parseInt\<close> gives for a key part that is no numeral).
\<close>

type_synonym index = "nat option"

definition digit_char :: "nat \<Rightarrow> char" where
  "digit_char d = ''0123456789'' ! d"

text \<open>
  The decimal numeral of an index, as a template literal prints it. Indices come from a
  16-bit or 32-bit unsigned array, well below the size where the language switches to
  exponent notation.
\<close>

function digits :: "nat \<Rightarrow> string" where
  "digits n = (if n < 10 then [digit_char n] else digits (n div 10) @ [digit_char (n mod 10)])"
  by pat_completeness auto
termination
  by (relation "measure (\<lambda>n. n)") auto

declare digits.simps [simp del]

fun toStr :: "index \<Rightarrow> string" where
  "toStr (Some n) = digits n"
| "toStr None = ''undefined''"

text \<open>\<^verbatim>\<open>a < b\<close> on indices: false as soon as one side is \<^verbatim>\<open>undefined\<close>.\<close>

fun index_lt :: "index \<Rightarrow> index \<Rightarrow> bool" where
  "index_lt (Some a) (Some b) = (a < b)"
| "index_lt _ _ = False"

definition edgeKey :: "index \<Rightarrow> index \<Rightarrow> string" where
  "edgeKey a b =
     (if index_lt a b then toStr a @ ''_'' @ toStr b else toStr b @ ''_'' @ toStr a)"

text \<open>\<^verbatim>\<open>ek.split("_")\<close>: the pieces of a string between its underscores.\<close>

fun split_us :: "string \<Rightarrow> string list" where
  "split_us [] = [[]]"
| "split_us (c # cs) =
     (if c = CHR ''_'' then [] # split_us cs
      else (case split_us cs of [] \<Rightarrow> [[c]] | p # ps \<Rightarrow> (c # p) # ps))"

definition is_digit :: "char \<Rightarrow> bool" where
  "is_digit c = (c \<in> set ''0123456789'')"

definition digit_val :: "char \<Rightarrow> nat" where
  "digit_val c = of_char c - 48"

text \<open>
  \<^verbatim>\<open>parseInt\<close> on a key part: the value of the leading decimal digits, \<open>NaN\<close> when
  there is none. Its handling of leading blanks, of a sign and of a hexadecimal prefix is
  left out: a key part is a numeral printed by \<open>toStr\<close> or the word \<^verbatim>\<open>undefined\<close>.
\<close>

definition parseInt :: "string \<Rightarrow> index" where
  "parseInt s =
     (let ds = takeWhile is_digit s
      in if ds = [] then None else Some (foldl (\<lambda>acc c. 10 * acc + digit_val c) 0 ds))"

text \<open>
  \<^verbatim>\<open>const [aStr, bStr] = ek.split("_"); const a = parseInt(aStr), b = parseInt(bStr);\<close>
  A missing piece is \<^verbatim>\<open>undefined\<close>, which \<^verbatim>\<open>parseInt\<close> turns into \<open>NaN\<close>.
\<close>

definition parsePart :: "string list \<Rightarrow> nat \<Rightarrow> index" where
  "parsePart parts i = (if i < length parts then parseInt (parts ! i) else None)"

definition edgeEnds :: "string \<Rightarrow> index \<times> index" where
  "edgeEnds ek = (let parts = split_us ek in (parsePart parts 0, parsePart parts 1))"

section \<open>The loaded mesh\<close>

text \<open>
  What \<^verbatim>\<open>loadGLTF\<close> returns: the position array (a \<^verbatim>\<open>Float32Array\<close>), the index
  array (a \<^verbatim>\<open>Uint16Array\<close> or \<^verbatim>\<open>Uint32Array\<close>), the count of the position
  accessor (\<open>None\<close> when the accessor has none) and the index count divided by three.
\<close>

record mesh =
  positions :: "jsnum list"
  indices :: "nat list"
  vertexCount :: "nat option"
  triangleCount :: jsnum

definition pos_at :: "jsnum list \<Rightarrow> nat \<Rightarrow> jsnum" where
  "pos_at ps j = (if j < length ps then ps ! j else NaN)"

definition idx_at :: "nat list \<Rightarrow> nat \<Rightarrow> index" where
  "idx_at is j = (if j < length is then Some (is ! j) else None)"

fun getVertex :: "jsnum list \<Rightarrow> index \<Rightarrow> vec" where
  "getVertex ps (Some i) = (pos_at ps (i * 3), pos_at ps (i * 3 + 1), pos_at ps (i * 3 + 2))"
| "getVertex ps None = (NaN, NaN, NaN)"

text \<open>
  The values \<open>f\<close> takes in \<^verbatim>\<open>for (let f = 0; f < triangleCount; f++)\<close>: none when the
  count is \<open>NaN\<close>, and one more than the whole part when the count is fractional.
\<close>

fun faceRange :: "jsnum \<Rightarrow> nat list" where
  "faceRange (Fin r) = [0 ..< nat \<lceil>r\<rceil>]"
| "faceRange NaN = []"

section \<open>Face normals and adjacency\<close>

definition faceNormal :: "mesh \<Rightarrow> nat \<Rightarrow> vec" where
  "faceNormal m f =
     (let i0 = idx_at (indices m) (f * 3); i1 = idx_at (indices m) (f * 3 + 1);
          i2 = idx_at (indices m) (f * 3 + 2);
          v0 = getVertex (positions m) i0; v1 = getVertex (positions m) i1;
          v2 = getVertex (positions m) i2
      in normalize_vec (cross (sub v1 v0) (sub v2 v0)))"

definition faceNormals :: "mesh \<Rightarrow> vec list" where
  "faceNormals m = map (faceNormal m) (faceRange (triangleCount m))"

text \<open>
  The map \<^verbatim>\<open>edgeFaces\<close> keeps its keys in insertion order; it is an association list
  with one entry per key. \<open>pushFace\<close> is the body of the inner loop:
  \<^verbatim>\<open>if (!edgeFaces.has(ek)) edgeFaces.set(ek, []); edgeFaces.get(ek).push(f);\<close>
\<close>

type_synonym edgeMap = "(string \<times> nat list) list"

fun pushFace :: "edgeMap \<Rightarrow> string \<Rightarrow> nat \<Rightarrow> edgeMap" where
  "pushFace [] ek f = [(ek, [f])]"
| "pushFace ((k, fs) # rest) ek f =
     (if k = ek then (k, fs @ [f]) # rest else (k, fs) # pushFace rest ek f)"

definition triEdges :: "nat list \<Rightarrow> nat \<Rightarrow> string list" where
  "triEdges is f =
     (let i0 = idx_at is (f * 3); i1 = idx_at is (f * 3 + 1); i2 = idx_at is (f * 3 + 2)
      in [edgeKey i0 i1, edgeKey i1 i2, edgeKey i2 i0])"

definition addTriangle :: "nat list \<Rightarrow> edgeMap \<Rightarrow> nat \<Rightarrow> edgeMap" where
  "addTriangle is em f = foldl (\<lambda>em' ek. pushFace em' ek f) em (triEdges is f)"

definition buildEdgeFaces :: "mesh \<Rightarrow> edgeMap" where
  "buildEdgeFaces m = foldl (addTriangle (indices m)) [] (faceRange (triangleCount m))"

section \<open>The edge filter\<close>

record stats =
  sharp :: nat
  long :: nat
  boundary :: nat
  tooShort :: nat
  coplanar :: nat
  nonManifold :: nat

record zoneStat =
  sharp :: nat
  tooShort :: nat
  coplanar :: nat

text \<open>
  \<^verbatim>\<open>zoneStats\<close> is an object with one entry for each zone name and one for
  \<^verbatim>\<open>"Fuselage (default)"\<close>. The filter only updates entries under a name
  \<open>zoneName\<close> returns, which all exist.
\<close>

type_synonym zoneStats = "string \<rightharpoonup> zoneStat"

definition zeroZoneStat :: zoneStat where
  "zeroZoneStat = \<lparr>zoneStat.sharp = 0, zoneStat.tooShort = 0, zoneStat.coplanar = 0\<rparr>"

definition initZoneStats :: "zone list \<Rightarrow> zoneStats" where
  "initZoneStats zs =
     (foldl (\<lambda>zst z. zst(zone.name z \<mapsto> zeroZoneStat)) Map.empty zs)
       (''Fuselage (default)'' \<mapsto> zeroZoneStat)"

definition bumpZone :: "(zoneStat \<Rightarrow> zoneStat) \<Rightarrow> string \<Rightarrow> zoneStats \<Rightarrow> zoneStats" where
  "bumpZone g n zst = (case zst n of Some s \<Rightarrow> zst(n \<mapsto> g s) | None \<Rightarrow> zst)"

record fstate =
  featureEdges :: "(index \<times> index) list"
  zoneStats :: zoneStats
  stats :: stats

definition initState :: "zone list \<Rightarrow> fstate" where
  "initState zs =
     \<lparr>featureEdges = [], zoneStats = initZoneStats zs,
      stats = \<lparr>stats.sharp = 0, stats.long = 0, stats.boundary = 0, stats.tooShort = 0,
               stats.coplanar = 0, stats.nonManifold = 0\<rparr>\<rparr>"

text \<open>The constants of the loop body that depend on the edge key alone.\<close>

definition edgeLen :: "mesh \<Rightarrow> string \<Rightarrow> jsnum" where
  "edgeLen m ek =
     (let (a, b) = edgeEnds ek; va = getVertex (positions m) a; vb = getVertex (positions m) b
      in dist_vec va vb)"

definition edgeMid :: "mesh \<Rightarrow> string \<Rightarrow> vec" where
  "edgeMid m ek =
     (let (a, b) = edgeEnds ek; va = getVertex (positions m) a; vb = getVertex (positions m) b
      in midpoint va vb)"

text \<open>
  \<^verbatim>\<open>Math.acos(Math.max(-1, Math.min(1, dot(n1, n2))))\<close> for the first two faces of
  an edge. The face ids stored in the adjacency map are positions of \<open>faceNormals\<close>
  (lemma \<open>faces_in_range\<close> below), so the two reads are within the array.
\<close>

definition dihedral :: "mesh \<Rightarrow> nat list \<Rightarrow> jsnum" where
  "dihedral m faces =
     (let n1 = faceNormals m ! (faces ! 0); n2 = faceNormals m ! (faces ! 1);
          cosAngle = dot n1 n2
      in js_acos (js_max (Fin (- 1)) (js_min (Fin 1) cosAngle)))"

definition keepEdge :: "string \<Rightarrow> fstate \<Rightarrow> fstate" where
  "keepEdge ek st = st\<lparr>featureEdges := featureEdges st @ [edgeEnds ek]\<rparr>"

definition countStat :: "(stats \<Rightarrow> stats) \<Rightarrow> fstate \<Rightarrow> fstate" where
  "countStat g st = st\<lparr>fstate.stats := g (fstate.stats st)\<rparr>"

definition countZone :: "(zoneStat \<Rightarrow> zoneStat) \<Rightarrow> string \<Rightarrow> fstate \<Rightarrow> fstate" where
  "countZone g n st = st\<lparr>zoneStats := bumpZone g n (zoneStats st)\<rparr>"

text \<open>One iteration of \<^verbatim>\<open>for (const [ek, faces] of edgeFaces)\<close>.\<close>

definition filterEdge :: "zone list \<Rightarrow> opts \<Rightarrow> mesh \<Rightarrow> fstate \<Rightarrow> string \<times> nat list \<Rightarrow> fstate" where
  "filterEdge zs os m st entry =
     (let (ek, faces) = entry;
          len = edgeLen m ek;
          mid = edgeMid m ek;
          zn = zoneName zs os mid
      in if js_lt len (localMinLength zs os mid) then
           countZone (\<lambda>s. s\<lparr>zoneStat.tooShort := zoneStat.tooShort s + 1\<rparr>) zn
             (countStat (\<lambda>s. s\<lparr>stats.tooShort := stats.tooShort s + 1\<rparr>) st)
         else if length faces = 1 then
           (if opts.boundary os then
              countStat (\<lambda>s. s\<lparr>stats.boundary := stats.boundary s + 1\<rparr>) (keepEdge ek st)
            else st)
         else if length faces = 2 then
           (if js_gt (dihedral m faces) (localThresholdRad zs os mid) then
              countZone (\<lambda>s. s\<lparr>zoneStat.sharp := zoneStat.sharp s + 1\<rparr>) zn
                (countStat (\<lambda>s. s\<lparr>stats.sharp := stats.sharp s + 1\<rparr>) (keepEdge ek st))
            else if js_gt len (opts.featureLength os) then
              countStat (\<lambda>s. s\<lparr>stats.long := stats.long s + 1\<rparr>) (keepEdge ek st)
            else
              countZone (\<lambda>s. s\<lparr>zoneStat.coplanar := zoneStat.coplanar s + 1\<rparr>) zn
                (countStat (\<lambda>s. s\<lparr>stats.coplanar := stats.coplanar s + 1\<rparr>) st))
         else
           countStat (\<lambda>s. s\<lparr>stats.nonManifold := stats.nonManifold s + 1\<rparr>) (keepEdge ek st))"

definition filterEdges :: "zone list \<Rightarrow> opts \<Rightarrow> mesh \<Rightarrow> fstate" where
  "filterEdges zs os m = foldl (filterEdge zs os m) (initState zs) (buildEdgeFaces m)"

section \<open>Compaction and the result\<close>

text \<open>
  \<^verbatim>\<open>usedVertices\<close> is a \<^verbatim>\<open>Set\<close>, walked in insertion order: a list without
  repetition. \<^verbatim>\<open>vertexMap\<close> is only looked up, so its order does not matter.
\<close>

definition addUsed :: "index list \<Rightarrow> index \<Rightarrow> index list" where
  "addUsed used v = (if v \<in> set used then used else used @ [v])"

definition usedVertices :: "(index \<times> index) list \<Rightarrow> index list" where
  "usedVertices fes = foldl (\<lambda>used (a, b). addUsed (addUsed used a) b) [] fes"

record compact =
  vertexMap :: "index \<rightharpoonup> nat"
  outVertices :: "jsnum list"
  idx :: nat

definition compactStep :: "jsnum list \<Rightarrow> compact \<Rightarrow> index \<Rightarrow> compact" where
  "compactStep ps c v =
     (let (p0, p1, p2) = getVertex ps v
      in \<lparr>vertexMap = (vertexMap c)(v \<mapsto> idx c),
          outVertices = outVertices c @ [p0, p1, p2],
          idx = idx c + 1\<rparr>)"

definition compactVertices :: "jsnum list \<Rightarrow> index list \<Rightarrow> compact" where
  "compactVertices ps used =
     foldl (compactStep ps) \<lparr>vertexMap = Map.empty, outVertices = [], idx = 0\<rparr> used"

text \<open>
  \<^verbatim>\<open>outIndices.push(vertexMap.get(a), vertexMap.get(b))\<close>: an entry is
  \<^verbatim>\<open>undefined\<close> (\<open>None\<close>) when the map has no such key.
\<close>

definition outIndices :: "(index \<rightharpoonup> nat) \<Rightarrow> (index \<times> index) list \<Rightarrow> nat option list" where
  "outIndices vm fes = concat (map (\<lambda>(a, b). [vm a, vm b]) fes)"

record meta =
  sourceVertices :: "nat option"
  sourceTriangles :: jsnum
  sourceEdges :: nat
  featureEdges :: nat
  sharp :: nat
  long :: nat
  boundary :: nat
  tooShort :: nat
  coplanar :: nat
  nonManifold :: nat
  threshold :: jsnum
  minLength :: jsnum
  featureLength :: jsnum
  zonesEnabled :: bool

record result =
  vertices :: "jsnum list"
  indices :: "nat option list"
  meta :: meta

text \<open>
  The body of \<^verbatim>\<open>extractFeatureEdges\<close> after the call of \<^verbatim>\<open>loadGLTF\<close>, with the
  table \<^verbatim>\<open>ZONES\<close> as its first argument. The calls of \<^verbatim>\<open>console.log\<close> are left
  out.
\<close>

definition extractFrom :: "zone list \<Rightarrow> mesh \<Rightarrow> opts \<Rightarrow> result" where
  "extractFrom zs m os =
     (let edgeFaces = buildEdgeFaces m;
          st = filterEdges zs os m;
          c = compactVertices (positions m) (usedVertices (fstate.featureEdges st))
      in \<lparr>vertices = outVertices c,
          indices = outIndices (vertexMap c) (fstate.featureEdges st),
          meta =
            \<lparr>sourceVertices = vertexCount m,
             sourceTriangles = triangleCount m,
             sourceEdges = length edgeFaces,
             featureEdges = length (fstate.featureEdges st),
             sharp = stats.sharp (fstate.stats st),
             long = stats.long (fstate.stats st),
             boundary = stats.boundary (fstate.stats st),
             tooShort = stats.tooShort (fstate.stats st),
             coplanar = stats.coplanar (fstate.stats st),
             nonManifold = stats.nonManifold (fstate.stats st),
             threshold = opts.threshold os,
             minLength = opts.minLength os,
             featureLength = opts.featureLength os,
             zonesEnabled = useZones zs os\<rparr>\<rparr>)"

section \<open>Sample meshes\<close>

text \<open>
  Small meshes on which the theorems below are instantiated: a 3-4-5 triangle in the plane
  \<open>z = 0\<close>, the same triangle with a second copy of opposite winding, and three
  triangles around one common edge, of length 1 and of length 3.
\<close>

definition flatTriangle :: mesh where
  "flatTriangle =
     \<lparr>positions = map Fin [0, 0, 0,  3, 0, 0,  0, 4, 0], indices = [0, 1, 2],
      vertexCount = Some 3, triangleCount = Fin 1\<rparr>"

definition foldedMesh :: mesh where
  "foldedMesh =
     \<lparr>positions = map Fin [0, 0, 0,  3, 0, 0,  0, 4, 0], indices = [0, 1, 2,  0, 2, 1],
      vertexCount = Some 3, triangleCount = Fin 2\<rparr>"

definition shortFan :: mesh where
  "shortFan =
     \<lparr>positions = map Fin [0, 0, 0,  1, 0, 0,  0, 4, 0,  0, 0, 4,  0, - 4, 0],
      indices = [0, 1, 2,  0, 1, 3,  0, 1, 4],
      vertexCount = Some 5, triangleCount = Fin 3\<rparr>"

definition fanMesh :: mesh where
  "fanMesh =
     \<lparr>positions = map Fin [0, 0, 0,  3, 0, 0,  0, 4, 0,  0, 0, 4,  0, - 4, 0],
      indices = [0, 1, 2,  0, 1, 3,  0, 1, 4],
      vertexCount = Some 5, triangleCount = Fin 3\<rparr>"

definition lowFeature :: opts where
  "lowFeature = defaults\<lparr>opts.featureLength := Fin 2\<rparr>"

definition flatQuad :: mesh where
  "flatQuad =
     \<lparr>positions = map Fin [0, 0, 0,  3, 0, 0,  0, 4, 0,  3, 4, 0], indices = [0, 1, 2,  2, 1, 3],
      vertexCount = Some 4, triangleCount = Fin 2\<rparr>"

definition negOpts :: opts where
  "negOpts = defaults\<lparr>opts.threshold := Fin (- 1)\<rparr>"

definition wideOpts :: opts where
  "wideOpts = defaults\<lparr>opts.threshold := Fin 200\<rparr>"

text \<open>The three numbers \<^verbatim>\<open>outVertices.push(pos[0], pos[1], pos[2])\<close> appends for a vertex.\<close>

definition coords :: "jsnum list \<Rightarrow> index \<Rightarrow> jsnum list" where
  "coords ps v = (let (p0, p1, p2) = getVertex ps v in [p0, p1, p2])"

section \<open>The command line\<close>

text \<open>
  \<^verbatim>\<open>parseArgs\<close> walks \<^verbatim>\<open>process.argv.slice(2)\<close>. An option that takes a value reads
  \<^verbatim>\<open>args[++i]\<close>, which is \<^verbatim>\<open>undefined\<close> (\<open>None\<close>) when the option is the last
  word. The function has no \<^verbatim>\<open>throw\<close>: an unknown word is reported with
  \<^verbatim>\<open>console.warn\<close> and skipped. The fields \<^verbatim>\<open>input\<close> and \<^verbatim>\<open>output\<close> of the
  script are \<open>inputPath\<close> and \<open>outputPath\<close> here.

  \<^verbatim>\<open>parseFloat\<close> belongs to the language, not to the script; it is the parameter
  \<open>pf\<close>, so that what is proved of \<open>parseArgs\<close> holds for the language's function.
\<close>

definition argValue :: "string list \<Rightarrow> string option" where
  "argValue rest = (case rest of [] \<Rightarrow> None | v # _ \<Rightarrow> Some v)"

fun parseArgsFrom :: "(string option \<Rightarrow> jsnum) \<Rightarrow> string list \<Rightarrow> opts \<Rightarrow> opts" where
  "parseArgsFrom pf [] os = os"
| "parseArgsFrom pf (a # rest) os =
     (if a = ''--input'' then parseArgsFrom pf (tl rest) (os\<lparr>inputPath := argValue rest\<rparr>)
      else if a = ''--output'' then parseArgsFrom pf (tl rest) (os\<lparr>outputPath := argValue rest\<rparr>)
      else if a = ''--threshold'' then
        parseArgsFrom pf (tl rest) (os\<lparr>opts.threshold := pf (argValue rest)\<rparr>)
      else if a = ''--min-length'' then
        parseArgsFrom pf (tl rest) (os\<lparr>opts.minLength := pf (argValue rest)\<rparr>)
      else if a = ''--feature-length'' then
        parseArgsFrom pf (tl rest) (os\<lparr>opts.featureLength := pf (argValue rest)\<rparr>)
      else if a = ''--boundary'' then parseArgsFrom pf rest (os\<lparr>opts.boundary := True\<rparr>)
      else if a = ''--no-boundary'' then parseArgsFrom pf rest (os\<lparr>opts.boundary := False\<rparr>)
      else if a = ''--no-zones'' then parseArgsFrom pf rest (os\<lparr>opts.zones := False\<rparr>)
      else if a = ''--stats'' then parseArgsFrom pf rest (os\<lparr>opts.stats := True\<rparr>)
      else parseArgsFrom pf rest os)"

definition parseArgs :: "(string option \<Rightarrow> jsnum) \<Rightarrow> string list \<Rightarrow> opts" where
  "parseArgs pf args = parseArgsFrom pf args defaults"

text \<open>
  A model of \<^verbatim>\<open>parseFloat\<close> for the instances below: leading blanks, an optional
  sign, decimal digits with an optional fraction and an optional exponent; \<open>NaN\<close>
  when no digit is found, and for \<^verbatim>\<open>undefined\<close>. The value is the exact decimal
  value. The literal \<^verbatim>\<open>Infinity\<close> has no counterpart among the numbers of this
  model and is read as \<open>NaN\<close>.
\<close>

definition is_space :: "char \<Rightarrow> bool" where
  "is_space c = (c \<in> set [CHR '' '', CHR 0x09, CHR 0x0A, CHR 0x0B, CHR 0x0C, CHR 0x0D])"

definition digitsValue :: "string \<Rightarrow> nat" where
  "digitsValue ds = foldl (\<lambda>acc c. 10 * acc + digit_val c) 0 ds"

definition scale10 :: "real \<Rightarrow> int \<Rightarrow> real" where
  "scale10 x e = (if 0 \<le> e then x * 10 ^ nat e else x / 10 ^ nat (- e))"

fun exponentPart :: "string \<Rightarrow> int" where
  "exponentPart (c # rest) =
     (if c = CHR ''e'' \<or> c = CHR ''E'' then
        (case rest of
           [] \<Rightarrow> 0
         | s # ds \<Rightarrow>
             if s = CHR ''-'' then - int (digitsValue (takeWhile is_digit ds))
             else if s = CHR ''+'' then int (digitsValue (takeWhile is_digit ds))
             else int (digitsValue (takeWhile is_digit rest)))
      else 0)"
| "exponentPart [] = 0"

definition unsignedFloat :: "string \<Rightarrow> jsnum" where
  "unsignedFloat u =
     (let ip = takeWhile is_digit u; r1 = dropWhile is_digit u;
          fp = (case r1 of [] \<Rightarrow> [] | c # r \<Rightarrow> if c = CHR ''.'' then takeWhile is_digit r else []);
          r2 = (case r1 of [] \<Rightarrow> [] | c # r \<Rightarrow> if c = CHR ''.'' then dropWhile is_digit r else r1)
      in if ip = [] \<and> fp = [] then NaN
         else Fin (scale10 (real (digitsValue ip) + real (digitsValue fp) / 10 ^ length fp)
                (exponentPart r2)))"

definition parseFloat :: "string option \<Rightarrow> jsnum" where
  "parseFloat v =
     (case v of
        None \<Rightarrow> NaN
      | Some s \<Rightarrow>
          (case dropWhile is_space s of
             [] \<Rightarrow> NaN
           | c # r \<Rightarrow>
               if c = CHR ''-'' then js_mul (Fin (- 1)) (unsignedFloat r)
               else if c = CHR ''+'' then unsignedFloat r
               else unsignedFloat (c # r)))"

section \<open>The loader\<close>

text \<open>
  What a run can throw: a failed file read, a failed \<^verbatim>\<open>JSON.parse\<close>, the runtime's
  type error (a property of \<^verbatim>\<open>undefined\<close> is read, or a path is \<^verbatim>\<open>undefined\<close>),
  its range error (a typed array that does not fit its buffer), and the script's own
  \<^verbatim>\<open>Error("Unsupported index component type: ...")\<close> with the offending type.
\<close>

datatype error = FileError | SyntaxError | TypeError | RangeError | UnsupportedIndexType "nat option"

text \<open>
  The \<^verbatim>\<open>Buffer\<close> that \<^verbatim>\<open>readFileSync\<close> returns for the payload, as far as the
  loader reads it: the bytes (numbers below 256) of the memory block \<^verbatim>\<open>buffer.buffer\<close>
  it lives in, and its offset \<^verbatim>\<open>buffer.byteOffset\<close> in that block. The runtime may
  place a small file in a larger, shared block, so the block is not assumed to be the
  file.
\<close>

record nodeBuffer =
  arrayBuffer :: "nat list"
  byteOffset :: nat

text \<open>
  The parsed container, as far as \<^verbatim>\<open>loadGLTF\<close> reads it. A field that the document
  lacks is \<open>None\<close>; numbers of the layout are natural numbers. The script reads no
  other field (not the accessor's \<^verbatim>\<open>type\<close>, not the view's \<^verbatim>\<open>buffer\<close>).
\<close>

record accessor =
  bufferView :: "nat option"
  byteOffset :: "nat option"
  count :: "nat option"
  componentType :: "nat option"

record bufferView =
  byteOffset :: "nat option"

record bufferDecl =
  uri :: "string option"

record gltf =
  buffers :: "bufferDecl list option"
  accessors :: "accessor list option"
  bufferViews :: "bufferView list option"

text \<open>
  The files of a run: \<open>readJson\<close> is \<^verbatim>\<open>JSON.parse(readFileSync(resolve(gltfPath), "utf-8"))\<close>,
  \<open>readBin\<close> reads the payload named by a \<^verbatim>\<open>uri\<close> relative to the container's
  directory, and \<open>writeFile\<close> tells what \<^verbatim>\<open>writeFileSync\<close> does at a path: it
  returns (\<open>None\<close>) or throws. Each of the three may fail.
\<close>

record world =
  readJson :: "string \<Rightarrow> error + gltf"
  readBin :: "string \<Rightarrow> string \<Rightarrow> error + nodeBuffer"
  writeFile :: "string \<Rightarrow> error option"

text \<open>
  The elements of a typed array over the bytes of a buffer, little-endian. A 32-bit float
  is decoded to the real number it denotes; the two infinities have no counterpart here
  and are read as \<open>NaN\<close>.
\<close>

definition decodeU16 :: "nat list \<Rightarrow> nat" where
  "decodeU16 bs = bs ! 0 + 256 * bs ! 1"

definition decodeU32 :: "nat list \<Rightarrow> nat" where
  "decodeU32 bs = bs ! 0 + 256 * bs ! 1 + 65536 * bs ! 2 + 16777216 * bs ! 3"

definition decodeF32 :: "nat list \<Rightarrow> jsnum" where
  "decodeF32 bs =
     (let w = decodeU32 bs; s = w div 2 ^ 31; e = (w div 2 ^ 23) mod 256; f = w mod 2 ^ 23;
          sign = (if s = 0 then 1 else - 1)
      in if e = 255 then NaN
         else if e = 0 then Fin (sign * (real f / 2 ^ 149))
         else if 127 \<le> e then Fin (sign * ((1 + real f / 2 ^ 23) * 2 ^ (e - 127)))
         else Fin (sign * ((1 + real f / 2 ^ 23) / 2 ^ (127 - e))))"

text \<open>
  \<^verbatim>\<open>new T(buffer.buffer, byteOffset, length)\<close>: a range error when the offset is not a
  multiple of the element size or the elements do not fit the buffer. A length that is
  \<^verbatim>\<open>undefined\<close> takes the rest of the buffer; a length that is \<open>NaN\<close> counts as 0.
  The argument \<open>buf\<close> is the memory block \<^verbatim>\<open>buffer.buffer\<close>, and \<open>off\<close> counts from
  its start.
\<close>

datatype lengthArg = LenUndefined | LenNaN | Len nat

definition elements :: "nat \<Rightarrow> (nat list \<Rightarrow> 'a) \<Rightarrow> nat list \<Rightarrow> nat \<Rightarrow> nat \<Rightarrow> 'a list" where
  "elements sz dec buf off n = map (\<lambda>i. dec (take sz (drop (off + i * sz) buf))) [0 ..< n]"

definition typedArray ::
  "nat \<Rightarrow> (nat list \<Rightarrow> 'a) \<Rightarrow> nat list \<Rightarrow> nat \<Rightarrow> lengthArg \<Rightarrow> error + 'a list" where
  "typedArray sz dec buf off len =
     (if off mod sz \<noteq> 0 then Inl RangeError
      else case len of
        LenUndefined \<Rightarrow>
          if length buf mod sz \<noteq> 0 \<or> length buf < off then Inl RangeError
          else Inr (elements sz dec buf off ((length buf - off) div sz))
      | LenNaN \<Rightarrow> if length buf < off then Inl RangeError else Inr []
      | Len n \<Rightarrow>
          if length buf < off + n * sz then Inl RangeError
          else Inr (elements sz dec buf off n))"

text \<open>
  \<^verbatim>\<open>x || 0\<close> for a byte offset, an array element that may be missing, and the plumbing
  of exceptions: \<open>andThen\<close> stops at the first error, \<open>orThrow\<close> raises when a value
  is \<^verbatim>\<open>undefined\<close>.
\<close>

definition orZero :: "nat option \<Rightarrow> nat" where
  "orZero v = (case v of None \<Rightarrow> 0 | Some n \<Rightarrow> n)"

definition elementAt :: "'a list \<Rightarrow> nat option \<Rightarrow> 'a option" where
  "elementAt xs i = (case i of None \<Rightarrow> None | Some n \<Rightarrow> if n < length xs then Some (xs ! n) else None)"

definition andThen :: "error + 'a \<Rightarrow> ('a \<Rightarrow> error + 'b) \<Rightarrow> error + 'b" where
  "andThen r f = (case r of Inl e \<Rightarrow> Inl e | Inr x \<Rightarrow> f x)"

definition orThrow :: "error \<Rightarrow> 'a option \<Rightarrow> error + 'a" where
  "orThrow e v = (case v of None \<Rightarrow> Inl e | Some x \<Rightarrow> Inr x)"

text \<open>
  The length passed to the position array is \<^verbatim>\<open>posCount * 3\<close>, which is \<open>NaN\<close> when
  the accessor has no count; the length passed to the index array is \<^verbatim>\<open>idxCount\<close>
  itself, \<^verbatim>\<open>undefined\<close> when the accessor has no count.
\<close>

definition lengthOfCount :: "lengthArg \<Rightarrow> nat option \<Rightarrow> lengthArg" where
  "lengthOfCount missing c = (case c of None \<Rightarrow> missing | Some n \<Rightarrow> Len n)"

definition indexArray :: "nat option \<Rightarrow> nat list \<Rightarrow> nat \<Rightarrow> lengthArg \<Rightarrow> error + nat list" where
  "indexArray ct buffer idxOffset idxLength =
     (if ct = Some 5123 then typedArray 2 decodeU16 buffer idxOffset idxLength
      else if ct = Some 5125 then typedArray 4 decodeU32 buffer idxOffset idxLength
      else Inl (UnsupportedIndexType ct))"

definition loadGLTF :: "world \<Rightarrow> string option \<Rightarrow> error + mesh" where
  "loadGLTF w gltfPath =
     andThen (orThrow TypeError gltfPath) (\<lambda>path.
     andThen (readJson w path) (\<lambda>gltf.
     andThen (orThrow TypeError (buffers gltf)) (\<lambda>bufs.
     andThen (orThrow TypeError (elementAt bufs (Some 0))) (\<lambda>decl.
     andThen (orThrow TypeError (uri decl)) (\<lambda>u.
     andThen (readBin w path u) (\<lambda>buffer.
     andThen (orThrow TypeError (accessors gltf)) (\<lambda>accs.
     andThen (orThrow TypeError (elementAt accs (Some 0))) (\<lambda>posAccessor.
     andThen (orThrow TypeError (bufferViews gltf)) (\<lambda>views.
     andThen (orThrow TypeError (elementAt views (accessor.bufferView posAccessor))) (\<lambda>posView.
     andThen (typedArray 4 decodeF32 (arrayBuffer buffer)
         (nodeBuffer.byteOffset buffer +
          (orZero (bufferView.byteOffset posView) + orZero (accessor.byteOffset posAccessor)))
         (lengthOfCount LenNaN (map_option (\<lambda>n. n * 3) (count posAccessor)))) (\<lambda>positions.
     andThen (orThrow TypeError (elementAt accs (Some 1))) (\<lambda>idxAccessor.
     andThen (orThrow TypeError (elementAt views (accessor.bufferView idxAccessor))) (\<lambda>idxView.
     andThen (indexArray (componentType idxAccessor) (arrayBuffer buffer)
         (nodeBuffer.byteOffset buffer +
          (orZero (bufferView.byteOffset idxView) + orZero (accessor.byteOffset idxAccessor)))
         (lengthOfCount LenUndefined (count idxAccessor))) (\<lambda>indices.
     Inr \<lparr>positions = positions, indices = indices, vertexCount = count posAccessor,
          triangleCount =
            (case count idxAccessor of None \<Rightarrow> NaN | Some n \<Rightarrow> Fin (real n / 3))\<rparr>))))))))))))))"

section \<open>The run\<close>

text \<open>
  \<^verbatim>\<open>extractFeatureEdges(gltfPath, opts)\<close> loads the model and extracts; the script then
  writes the result with \<^verbatim>\<open>writeFileSync(resolve(opts.output), JSON.stringify(result))\<close>,
  where \<^verbatim>\<open>resolve\<close> throws on a path that is \<^verbatim>\<open>undefined\<close> and the write may
  throw. A run returns the error that stopped it, or the path and the document it has
  written.
\<close>

definition extractFeatureEdges :: "world \<Rightarrow> string option \<Rightarrow> opts \<Rightarrow> error + result" where
  "extractFeatureEdges w gltfPath os =
     andThen (loadGLTF w gltfPath) (\<lambda>m. Inr (extractFrom ZONES m os))"

definition run ::
  "(string option \<Rightarrow> jsnum) \<Rightarrow> world \<Rightarrow> string list \<Rightarrow> error + string \<times> result" where
  "run pf w args =
     (let os = parseArgs pf args
      in andThen (extractFeatureEdges w (inputPath os) os) (\<lambda>r.
         andThen (orThrow TypeError (outputPath os)) (\<lambda>p.
         (case writeFile w p of Some e \<Rightarrow> Inl e | None \<Rightarrow> Inr (p, r)))))"

section \<open>Sample containers\<close>

text \<open>
  A payload of 42 bytes (nine floats, the vertices of the 3-4-5 triangle, then the three
  16-bit indices 0, 1, 2), a container that describes it, and three variants: an index
  accessor of component type 5121, a position accessor without count, and a container
  without buffers.
\<close>

definition triangleBytes :: "nat list" where
  "triangleBytes =
     [0, 0, 0, 0,  0, 0, 0, 0,  0, 0, 0, 0,
      0, 0, 64, 64,  0, 0, 0, 0,  0, 0, 0, 0,
      0, 0, 0, 0,  0, 0, 128, 64,  0, 0, 0, 0,
      0, 0,  1, 0,  2, 0]"

definition triangleDoc :: gltf where
  "triangleDoc =
     \<lparr>buffers = Some [\<lparr>uri = Some ''sr71.bin''\<rparr>],
      accessors = Some
        [\<lparr>bufferView = Some 0, byteOffset = None, count = Some 3, componentType = Some 5126\<rparr>,
         \<lparr>bufferView = Some 1, byteOffset = None, count = Some 3, componentType = Some 5123\<rparr>],
      bufferViews = Some [\<lparr>byteOffset = None\<rparr>, \<lparr>byteOffset = Some 36\<rparr>]\<rparr>"

definition worldOf :: "gltf \<Rightarrow> world" where
  "worldOf doc =
     \<lparr>readJson = (\<lambda>p. if p = ''public/sr71.gltf'' then Inr doc else Inl FileError),
      readBin = (\<lambda>p u. if p = ''public/sr71.gltf'' \<and> u = ''sr71.bin''
                        then Inr \<lparr>arrayBuffer = triangleBytes, byteOffset = 0\<rparr>
                        else Inl FileError),
      writeFile = (\<lambda>p. None)\<rparr>"

definition byteIndexDoc :: gltf where
  "byteIndexDoc =
     \<lparr>buffers = Some [\<lparr>uri = Some ''sr71.bin''\<rparr>],
      accessors = Some
        [\<lparr>bufferView = Some 0, byteOffset = None, count = Some 3, componentType = Some 5126\<rparr>,
         \<lparr>bufferView = Some 1, byteOffset = None, count = Some 3, componentType = Some 5121\<rparr>],
      bufferViews = Some [\<lparr>byteOffset = None\<rparr>, \<lparr>byteOffset = Some 36\<rparr>]\<rparr>"

definition noCountDoc :: gltf where
  "noCountDoc =
     \<lparr>buffers = Some [\<lparr>uri = Some ''sr71.bin''\<rparr>],
      accessors = Some
        [\<lparr>bufferView = Some 0, byteOffset = None, count = None, componentType = Some 5126\<rparr>,
         \<lparr>bufferView = Some 1, byteOffset = None, count = Some 3, componentType = Some 5123\<rparr>],
      bufferViews = Some [\<lparr>byteOffset = None\<rparr>, \<lparr>byteOffset = Some 36\<rparr>]\<rparr>"

definition noBuffersDoc :: gltf where
  "noBuffersDoc = \<lparr>buffers = None, accessors = Some [], bufferViews = Some []\<rparr>"

section \<open>Specification-side notions\<close>

text \<open>
  The adjacency builder as the specification words it: the faces of a key are the
  triangles that reference it, first found first, once for each of the triangle's three
  edges that has this key.
\<close>

definition facesOf :: "edgeMap \<Rightarrow> string \<Rightarrow> nat list" where
  "facesOf em k = (case map_of em k of None \<Rightarrow> [] | Some fs \<Rightarrow> fs)"

definition discovered :: "nat list \<Rightarrow> nat list \<Rightarrow> string \<Rightarrow> nat list" where
  "discovered is fs k = concat (map (\<lambda>f. map (\<lambda>e. f) (filter (\<lambda>e. e = k) (triEdges is f))) fs)"

text \<open>
  The zone classifier as the specification words it: a box contains a point when each
  coordinate lies between the box's bounds, both bounds included.
\<close>

fun box_contains :: "zone \<Rightarrow> vec \<Rightarrow> bool" where
  "box_contains z (Fin x, Fin y, Fin w) =
     (xMin z \<le> x \<and> x \<le> xMax z \<and> yMin z \<le> y \<and> y \<le> yMax z \<and> zMin z \<le> w \<and> w \<le> zMax z)"
| "box_contains z _ = False"

text \<open>
  The edge filter as the specification words it (its section 4.5): the hard floor first,
  then the classification by the number of adjacent faces.
\<close>

datatype verdict = TooShort | BoundaryKept | BoundaryDropped | Sharp | Long | Coplanar | NonManifold

definition classify :: "zone list \<Rightarrow> opts \<Rightarrow> mesh \<Rightarrow> string \<times> nat list \<Rightarrow> verdict" where
  "classify zs os m entry =
     (let (ek, faces) = entry
      in if js_lt (edgeLen m ek) (localMinLength zs os (edgeMid m ek)) then TooShort
         else if length faces = 1 then (if opts.boundary os then BoundaryKept else BoundaryDropped)
         else if length faces = 2 then
           (if js_gt (dihedral m faces) (localThresholdRad zs os (edgeMid m ek)) then Sharp
            else if js_gt (edgeLen m ek) (opts.featureLength os) then Long
            else Coplanar)
         else NonManifold)"

definition keptVerdict :: "verdict \<Rightarrow> bool" where
  "keptVerdict v = (v = BoundaryKept \<or> v = Sharp \<or> v = Long \<or> v = NonManifold)"

section \<open>Properties\<close>

subsection \<open>Zone classifier\<close>

lemma findZone_step:
  "findZone (z # zs) p = (if box_contains z p then Some z else findZone zs p)"
proof (cases p)
  case (fields p0 p1 p2)
  show ?thesis
    unfolding fields by (cases p0; cases p1; cases p2) auto
qed

lemma findZone_None_iff:
  "findZone zs p = None \<longleftrightarrow> (\<forall>z \<in> set zs. \<not> box_contains z p)"
  by (induction zs) (simp_all add: findZone_step del: findZone.simps(2))

lemma findZone_Some_iff:
  "findZone zs p = Some z \<longleftrightarrow>
     (\<exists>i < length zs. zs ! i = z \<and> box_contains z p \<and> (\<forall>j < i. \<not> box_contains (zs ! j) p))"
proof (induction zs)
  case Nil
  show ?case by (cases p) simp
next
  case (Cons y ys)
  show ?case
  proof (cases "box_contains y p")
    case True
    have "findZone (y # ys) p = Some y"
      using True by (simp add: findZone_step del: findZone.simps(2))
    moreover have
      "(\<exists>i < length (y # ys). (y # ys) ! i = z \<and> box_contains z p \<and>
          (\<forall>j < i. \<not> box_contains ((y # ys) ! j) p)) \<longleftrightarrow> y = z"
    proof
      assume "\<exists>i < length (y # ys). (y # ys) ! i = z \<and> box_contains z p \<and>
          (\<forall>j < i. \<not> box_contains ((y # ys) ! j) p)"
      then obtain i where i: "(y # ys) ! i = z" "\<forall>j < i. \<not> box_contains ((y # ys) ! j) p"
        by blast
      have "i = 0"
      proof (rule ccontr)
        assume "i \<noteq> 0"
        then have "0 < i" by simp
        with i(2) have "\<not> box_contains ((y # ys) ! 0) p" by blast
        with True show False by simp
      qed
      with i(1) show "y = z" by simp
    next
      assume "y = z"
      with True show "\<exists>i < length (y # ys). (y # ys) ! i = z \<and> box_contains z p \<and>
          (\<forall>j < i. \<not> box_contains ((y # ys) ! j) p)"
        by (intro exI[of _ 0]) simp
    qed
    ultimately show ?thesis by auto
  next
    case False
    have step: "findZone (y # ys) p = findZone ys p"
      using False by (simp add: findZone_step del: findZone.simps(2))
    have "(\<exists>i < length (y # ys). (y # ys) ! i = z \<and> box_contains z p \<and>
             (\<forall>j < i. \<not> box_contains ((y # ys) ! j) p)) \<longleftrightarrow>
          (\<exists>i < length ys. ys ! i = z \<and> box_contains z p \<and>
             (\<forall>j < i. \<not> box_contains (ys ! j) p))" (is "?L \<longleftrightarrow> ?R")
    proof
      assume ?L
      then obtain i where i: "i < length (y # ys)" "(y # ys) ! i = z" "box_contains z p"
        "\<forall>j < i. \<not> box_contains ((y # ys) ! j) p"
        by blast
      from i(2,3) False have "i \<noteq> 0" by (cases i) auto
      then obtain k where k: "i = Suc k" by (cases i) auto
      have "\<forall>j < k. \<not> box_contains (ys ! j) p"
      proof (intro allI impI)
        fix j assume "j < k"
        then have "Suc j < i" using k by simp
        with i(4) have "\<not> box_contains ((y # ys) ! Suc j) p" by blast
        then show "\<not> box_contains (ys ! j) p" by simp
      qed
      with i k show ?R by (intro exI[of _ k]) simp
    next
      assume ?R
      then obtain k where k: "k < length ys" "ys ! k = z" "box_contains z p"
        "\<forall>j < k. \<not> box_contains (ys ! j) p"
        by blast
      have "\<forall>j < Suc k. \<not> box_contains ((y # ys) ! j) p"
      proof (intro allI impI)
        fix j assume "j < Suc k"
        then show "\<not> box_contains ((y # ys) ! j) p"
          using False k(4) by (cases j) auto
      qed
      with k show ?L by (intro exI[of _ "Suc k"]) simp
    qed
    with step Cons.IH show ?thesis by simp
  qed
qed

subsection \<open>Edge keys\<close>

lemma digit_cases: "d < 10 \<Longrightarrow> d = 0 \<or> d = 1 \<or> d = 2 \<or> d = 3 \<or> d = 4 \<or> d = 5 \<or> d = 6 \<or> d = 7 \<or> d = 8 \<or> d = (9::nat)"
  by arith

lemma digit_char_props:
  assumes "d < 10"
  shows "is_digit (digit_char d)" and "digit_val (digit_char d) = d" and "digit_char d \<noteq> CHR ''_''"
  using digit_cases[OF assms]
  by (auto simp: digit_char_def is_digit_def digit_val_def)

lemma digits_all_digit: "\<forall>c \<in> set (digits n). is_digit c"
proof (induction n rule: digits.induct)
  case (1 n)
  show ?case
  proof (cases "n < 10")
    case True
    then show ?thesis by (simp add: digits.simps[of n] digit_char_props)
  next
    case False
    then show ?thesis using 1 by (simp add: digits.simps[of n] digit_char_props)
  qed
qed

lemma digits_nonempty: "digits n \<noteq> []"
  by (simp add: digits.simps[of n])

lemma not_digit_us: "\<not> is_digit (CHR ''_'')"
  by (simp add: is_digit_def)

lemma digits_no_us: "CHR ''_'' \<notin> set (digits n)"
  using digits_all_digit[of n] not_digit_us by blast

lemma digits_value: "foldl (\<lambda>acc c. 10 * acc + digit_val c) 0 (digits n) = n"
proof (induction n rule: digits.induct)
  case (1 n)
  show ?case
  proof (cases "n < 10")
    case True
    then show ?thesis by (simp add: digits.simps[of n] digit_char_props)
  next
    case False
    then show ?thesis using 1 by (simp add: digits.simps[of n] digit_char_props)
  qed
qed

lemma parseInt_digits: "parseInt (digits n) = Some n"
proof -
  have tw: "takeWhile is_digit (digits n) = digits n"
    by (simp add: takeWhile_eq_all_conv digits_all_digit)
  show ?thesis
    by (simp add: parseInt_def tw digits_nonempty digits_value)
qed

lemma parseInt_undefined: "parseInt ''undefined'' = None"
  by (simp add: parseInt_def is_digit_def)

lemma parseInt_toStr: "parseInt (toStr a) = a"
  by (cases a) (simp_all add: parseInt_digits parseInt_undefined)

lemma toStr_no_us: "CHR ''_'' \<notin> set (toStr a)"
  by (cases a) (simp_all add: digits_no_us)

lemma split_us_plain: "CHR ''_'' \<notin> set xs \<Longrightarrow> split_us xs = [xs]"
  by (induction xs) auto

lemma split_us_append: "CHR ''_'' \<notin> set xs \<Longrightarrow> split_us (xs @ CHR ''_'' # ys) = xs # split_us ys"
  by (induction xs) auto

lemma split_us_key: "split_us (toStr a @ CHR ''_'' # toStr b) = [toStr a, toStr b]"
  by (simp add: split_us_append[OF toStr_no_us] split_us_plain[OF toStr_no_us])

lemma edgeEnds_join: "edgeEnds (toStr a @ CHR ''_'' # toStr b) = (a, b)"
  by (simp add: edgeEnds_def Let_def split_us_key parsePart_def parseInt_toStr)

lemma edgeEnds_edgeKey: "edgeEnds (edgeKey a b) = (if index_lt a b then (a, b) else (b, a))"
  by (simp add: edgeKey_def edgeEnds_join)

lemma edgeKey_render: "edgeKey a b = toStr (fst (edgeEnds (edgeKey a b))) @ ''_'' @ toStr (snd (edgeEnds (edgeKey a b)))"
  by (simp add: edgeEnds_edgeKey) (simp add: edgeKey_def)

lemma edgeEnds_inj_on_keys:
  assumes "edgeEnds (edgeKey a b) = edgeEnds (edgeKey c d)"
  shows "edgeKey a b = edgeKey c d"
  using edgeKey_render[of a b] edgeKey_render[of c d] assms by simp

lemma edgeKey_sym: "edgeKey (Some a) (Some b) = edgeKey (Some b) (Some a)"
  by (simp add: edgeKey_def)

lemma edgeKey_canonical: "edgeKey (Some a) (Some b) = digits (min a b) @ ''_'' @ digits (max a b)"
  by (simp add: edgeKey_def min_def max_def)

subsection \<open>Adjacency map\<close>

lemma map_of_pushFace:
  "map_of (pushFace em ek f) k = (if k = ek then Some (facesOf em ek @ [f]) else map_of em k)"
  by (induction em ek f rule: pushFace.induct) (auto simp: facesOf_def)

lemma facesOf_pushFace:
  "facesOf (pushFace em ek f) k = (if k = ek then facesOf em k @ [f] else facesOf em k)"
  by (simp add: facesOf_def map_of_pushFace)

lemma keys_pushFace:
  "map fst (pushFace em ek f) = (if ek \<in> fst ` set em then map fst em else map fst em @ [ek])"
  by (induction em ek f rule: pushFace.induct) auto

lemma distinct_pushFace:
  "distinct (map fst em) \<Longrightarrow> distinct (map fst (pushFace em ek f))"
  by (simp add: keys_pushFace)

lemma faces_sum_pushFace:
  "sum_list (map (length \<circ> snd) (pushFace em ek f)) = Suc (sum_list (map (length \<circ> snd) em))"
  by (induction em ek f rule: pushFace.induct) auto

lemma facesOf_push_all:
  "facesOf (foldl (\<lambda>em' ek. pushFace em' ek f) em es) k =
     facesOf em k @ map (\<lambda>e. f) (filter (\<lambda>e. e = k) es)"
  by (induction es arbitrary: em) (auto simp: facesOf_pushFace)

lemma distinct_push_all:
  "distinct (map fst em) \<Longrightarrow> distinct (map fst (foldl (\<lambda>em' ek. pushFace em' ek f) em es))"
  by (induction es arbitrary: em) (auto simp: distinct_pushFace)

lemma keys_push_all:
  "fst ` set (foldl (\<lambda>em' ek. pushFace em' ek f) em es) = fst ` set em \<union> set es"
proof (induction es arbitrary: em)
  case Nil
  show ?case by simp
next
  case (Cons e es)
  have "fst ` set (pushFace em e f) = insert e (fst ` set em)"
    using keys_pushFace[of em e f] by (metis (no_types, lifting) list.set_map set_append list.simps(15) empty_set Un_insert_right sup_bot.right_neutral insert_absorb)
  with Cons show ?case by auto
qed

lemma faces_sum_push_all:
  "sum_list (map (length \<circ> snd) (foldl (\<lambda>em' ek. pushFace em' ek f) em es)) =
     length es + sum_list (map (length \<circ> snd) em)"
  by (induction es arbitrary: em) (auto simp: faces_sum_pushFace)

lemma length_triEdges: "length (triEdges is f) = 3"
  by (simp add: triEdges_def Let_def)

lemma facesOf_build_from:
  "facesOf (foldl (addTriangle is) em fs) k = facesOf em k @ discovered is fs k"
  by (induction fs arbitrary: em) (auto simp: discovered_def addTriangle_def facesOf_push_all)

lemma distinct_build_from:
  "distinct (map fst em) \<Longrightarrow> distinct (map fst (foldl (addTriangle is) em fs))"
  by (induction fs arbitrary: em) (auto simp: addTriangle_def distinct_push_all)

lemma keys_build_from:
  "fst ` set (foldl (addTriangle is) em fs) = fst ` set em \<union> (\<Union>f \<in> set fs. set (triEdges is f))"
  by (induction fs arbitrary: em) (auto simp: addTriangle_def keys_push_all)

lemma faces_sum_build_from:
  "sum_list (map (length \<circ> snd) (foldl (addTriangle is) em fs)) =
     3 * length fs + sum_list (map (length \<circ> snd) em)"
  by (induction fs arbitrary: em) (auto simp: addTriangle_def faces_sum_push_all length_triEdges)

lemma facesOf_build: "facesOf (buildEdgeFaces m) k = discovered (mesh.indices m) (faceRange (triangleCount m)) k"
  using facesOf_build_from[of "mesh.indices m" "[]" "faceRange (triangleCount m)" k]
  by (simp add: buildEdgeFaces_def facesOf_def)

lemma distinct_build: "distinct (map fst (buildEdgeFaces m))"
  by (simp add: buildEdgeFaces_def distinct_build_from)

lemma keys_build:
  "fst ` set (buildEdgeFaces m) = (\<Union>f \<in> set (faceRange (triangleCount m)). set (triEdges (mesh.indices m) f))"
  by (simp add: buildEdgeFaces_def keys_build_from)

lemma faces_sum_build:
  "sum_list (map (length \<circ> snd) (buildEdgeFaces m)) = 3 * length (faceRange (triangleCount m))"
  by (simp add: buildEdgeFaces_def faces_sum_build_from)

lemma entry_facesOf:
  assumes "(k, fs) \<in> set (buildEdgeFaces m)"
  shows "facesOf (buildEdgeFaces m) k = fs"
  using assms distinct_build[of m] by (simp add: facesOf_def)

lemma discovered_subset: "set (discovered is fs k) \<subseteq> set fs"
  by (auto simp: discovered_def)

lemma faceRange_iff: "f \<in> set (faceRange tc) \<longleftrightarrow> js_lt (Fin (real f)) tc"
  by (cases tc) (auto simp: less_ceiling_iff nat_less_iff, linarith+)

lemma faceRange_upt: "faceRange tc = [0 ..< length (faceRange tc)]"
  by (cases tc) auto

lemma faces_in_range:
  assumes "(k, fs) \<in> set (buildEdgeFaces m)" and "f \<in> set fs"
  shows "f < length (faceNormals m) \<and> faceNormals m ! f = faceNormal m f"
proof -
  have "f \<in> set (faceRange (triangleCount m))"
    using assms entry_facesOf[OF assms(1)] facesOf_build[of m k] discovered_subset by fastforce
  then have lt: "f < length (faceRange (triangleCount m))"
    using faceRange_upt[of "triangleCount m"] by (metis atLeastLessThan_iff set_upt)
  then have "faceRange (triangleCount m) ! f = f"
    using faceRange_upt[of "triangleCount m"] by (metis add_0 nth_upt)
  with lt show ?thesis by (simp add: faceNormals_def)
qed

lemma key_is_edgeKey:
  assumes "(k, fs) \<in> set (buildEdgeFaces m)"
  shows "\<exists>a b. k = edgeKey a b"
proof -
  have "k \<in> fst ` set (buildEdgeFaces m)" using assms by force
  then obtain f where "k \<in> set (triEdges (mesh.indices m) f)"
    unfolding keys_build by blast
  then show ?thesis by (auto simp: triEdges_def Let_def)
qed

lemma entry_faces_nonempty:
  assumes "(k, fs) \<in> set (buildEdgeFaces m)"
  shows "fs \<noteq> []"
proof -
  have "k \<in> fst ` set (buildEdgeFaces m)" using assms by force
  then obtain f where f: "f \<in> set (faceRange (triangleCount m))" "k \<in> set (triEdges (mesh.indices m) f)"
    unfolding keys_build by blast
  then have "f \<in> set (discovered (mesh.indices m) (faceRange (triangleCount m)) k)"
    by (auto simp: discovered_def filter_empty_conv)
  then show ?thesis using entry_facesOf[OF assms] facesOf_build[of m k] by auto
qed

subsection \<open>Claims on the zone classifier and the adjacency builder\<close>

text \<open>
  Claim C4. For every point and every ordered zone list, \<open>findZone\<close> returns the first
  zone of the list whose box contains the point, bounds included on the three axes, and
  \<open>None\<close> when no box contains it; when zone filtering is switched off or no zone
  matches the midpoint, the filter works with the global threshold and minimum length.
\<close>

theorem zone_classifier:
  "(findZone zs p = None \<longleftrightarrow> (\<forall>z \<in> set zs. \<not> box_contains z p)) \<and>
   (findZone zs p = Some z \<longleftrightarrow>
      (\<exists>i < length zs. zs ! i = z \<and> box_contains z p \<and> (\<forall>j < i. \<not> box_contains (zs ! j) p))) \<and>
   (\<not> opts.zones os \<or> findZone zs mid = None \<longrightarrow>
      localThreshold zs os mid = opts.threshold os \<and>
      localMinLength zs os mid = opts.minLength os)"
proof (intro conjI impI)
  show "findZone zs p = None \<longleftrightarrow> (\<forall>z \<in> set zs. \<not> box_contains z p)"
    by (rule findZone_None_iff)
  show "findZone zs p = Some z \<longleftrightarrow>
      (\<exists>i < length zs. zs ! i = z \<and> box_contains z p \<and> (\<forall>j < i. \<not> box_contains (zs ! j) p))"
    by (rule findZone_Some_iff)
next
  assume "\<not> opts.zones os \<or> findZone zs mid = None"
  then have none: "edgeZone zs os mid = None"
    by (auto simp: edgeZone_def useZones_def)
  show "localThreshold zs os mid = opts.threshold os"
    by (simp add: localThreshold_def none)
  show "localMinLength zs os mid = opts.minLength os"
    by (simp add: localMinLength_def none)
qed

theorem zone_classifier_witness:
  "findZone ZONES (Fin 5, Fin 10, Fin 30) = Some (ZONES ! 3) \<and>
   box_contains (ZONES ! 4) (Fin 5, Fin 10, Fin 30) \<and>
   findZone ZONES (Fin 50, Fin 50, Fin 50) = None \<and>
   localThreshold ZONES defaults (Fin 50, Fin 50, Fin 50) = Fin (55 / 4) \<and>
   localMinLength ZONES defaults (Fin 50, Fin 50, Fin 50) = Fin (9 / 5)"
proof -
  let ?p = "(Fin 5, Fin 10, Fin 30)"
  let ?q = "(Fin 50, Fin 50, Fin 50)"
  have "\<forall>j < (3::nat). \<not> box_contains (ZONES ! j) ?p"
    by (simp add: ZONES_def less_Suc_eq numeral_3_eq_3)
  then have "\<exists>i < length ZONES. ZONES ! i = ZONES ! 3 \<and> box_contains (ZONES ! 3) ?p \<and>
      (\<forall>j < i. \<not> box_contains (ZONES ! j) ?p)"
    by (intro exI[of _ 3]) (simp add: ZONES_def)
  then have first: "findZone ZONES ?p = Some (ZONES ! 3)"
    using zone_classifier[of ZONES ?p "ZONES ! 3" defaults ?q] by blast
  have "\<forall>z \<in> set ZONES. \<not> box_contains z ?q"
    by (simp add: ZONES_def)
  then have none: "findZone ZONES ?q = None"
    using zone_classifier[of ZONES ?q "ZONES ! 3" defaults ?q] by blast
  then have "localThreshold ZONES defaults ?q = opts.threshold defaults \<and>
      localMinLength ZONES defaults ?q = opts.minLength defaults"
    using zone_classifier[of ZONES ?q "ZONES ! 3" defaults ?q] by blast
  moreover have "box_contains (ZONES ! 4) ?p"
    by (simp add: ZONES_def)
  ultimately show ?thesis
    using first none by (simp add: defaults_def)
qed

text \<open>
  Claim C6. The key of an edge does not depend on the order of its two vertex indices (the
  smaller index is printed first); a triangle contributes the keys of its three index
  pairs in winding order; the adjacency map has one entry per key, and the faces of a key
  are the triangles that reference it, in discovery order.
\<close>

theorem edge_adjacency:
  "edgeKey (Some a) (Some b) = edgeKey (Some b) (Some a) \<and>
   edgeKey (Some a) (Some b) = digits (min a b) @ ''_'' @ digits (max a b) \<and>
   (f * 3 + 2 < length (mesh.indices m) \<longrightarrow>
      triEdges (mesh.indices m) f =
        [edgeKey (Some (mesh.indices m ! (f * 3))) (Some (mesh.indices m ! (f * 3 + 1))),
         edgeKey (Some (mesh.indices m ! (f * 3 + 1))) (Some (mesh.indices m ! (f * 3 + 2))),
         edgeKey (Some (mesh.indices m ! (f * 3 + 2))) (Some (mesh.indices m ! (f * 3)))]) \<and>
   distinct (map fst (buildEdgeFaces m)) \<and>
   facesOf (buildEdgeFaces m) k = discovered (mesh.indices m) (faceRange (triangleCount m)) k \<and>
   sum_list (map (length \<circ> snd) (buildEdgeFaces m)) = 3 * length (faceRange (triangleCount m))"
proof (intro conjI impI)
  show "edgeKey (Some a) (Some b) = edgeKey (Some b) (Some a)"
    by (rule edgeKey_sym)
  show "edgeKey (Some a) (Some b) = digits (min a b) @ ''_'' @ digits (max a b)"
    by (rule edgeKey_canonical)
  show "distinct (map fst (buildEdgeFaces m))"
    by (rule distinct_build)
  show "facesOf (buildEdgeFaces m) k = discovered (mesh.indices m) (faceRange (triangleCount m)) k"
    by (rule facesOf_build)
  show "sum_list (map (length \<circ> snd) (buildEdgeFaces m)) = 3 * length (faceRange (triangleCount m))"
    by (rule faces_sum_build)
next
  assume "f * 3 + 2 < length (mesh.indices m)"
  then show "triEdges (mesh.indices m) f =
        [edgeKey (Some (mesh.indices m ! (f * 3))) (Some (mesh.indices m ! (f * 3 + 1))),
         edgeKey (Some (mesh.indices m ! (f * 3 + 1))) (Some (mesh.indices m ! (f * 3 + 2))),
         edgeKey (Some (mesh.indices m ! (f * 3 + 2))) (Some (mesh.indices m ! (f * 3)))]"
    by (simp add: triEdges_def idx_at_def Let_def)
qed

theorem edge_adjacency_witness:
  "edgeKey (Some 2) (Some 1) = ''1_2'' \<and> edgeKey (Some 1) (Some 2) = ''1_2'' \<and>
   triEdges [0, 1, 2, 2, 1, 3] 1 = [''1_2'', ''1_3'', ''2_3''] \<and>
   facesOf (buildEdgeFaces \<lparr>positions = [], indices = [0, 1, 2, 2, 1, 3], vertexCount = None,
      triangleCount = Fin 2\<rparr>) ''1_2'' = [0, 1]"
proof -
  let ?m = "\<lparr>positions = [], indices = [0, 1, 2, 2, 1, 3], vertexCount = None,
      triangleCount = Fin 2\<rparr>"
  note inst = edge_adjacency[of 1 2 1 ?m "''1_2''"]
  have fr: "faceRange (Fin 2) = [0, 1]"
    by (simp add: upt_rec)
  have d: "discovered [0, 1, 2, 2, 1, 3] [0, 1] ''1_2'' = [0, 1]"
    by code_simp
  have k: "edgeKey (Some 1) (Some 2) = ''1_2''"
    by code_simp
  have t: "triEdges [0, 1, 2, 2, 1, 3] 1 = [''1_2'', ''1_3'', ''2_3'']"
    by code_simp
  have "edgeKey (Some 2) (Some 1) = edgeKey (Some 1) (Some 2)"
    using inst by simp
  with k have k': "edgeKey (Some 2) (Some 1) = ''1_2''"
    by simp
  have "facesOf (buildEdgeFaces ?m) ''1_2'' =
      discovered (mesh.indices ?m) (faceRange (triangleCount ?m)) ''1_2''"
    using inst by blast
  then have "facesOf (buildEdgeFaces ?m) ''1_2'' = [0, 1]"
    by (simp only: fr mesh.select_convs d)
  with k k' t show ?thesis
    by blast
qed

subsection \<open>The filter loop\<close>

lemma filterEdge_classify:
  "filterEdge zs os m st e =
     (let zn = zoneName zs os (edgeMid m (fst e)) in
      case classify zs os m e of
        TooShort \<Rightarrow>
          countZone (\<lambda>s. s\<lparr>zoneStat.tooShort := zoneStat.tooShort s + 1\<rparr>) zn
            (countStat (\<lambda>s. s\<lparr>stats.tooShort := stats.tooShort s + 1\<rparr>) st)
      | BoundaryKept \<Rightarrow> countStat (\<lambda>s. s\<lparr>stats.boundary := stats.boundary s + 1\<rparr>) (keepEdge (fst e) st)
      | BoundaryDropped \<Rightarrow> st
      | Sharp \<Rightarrow>
          countZone (\<lambda>s. s\<lparr>zoneStat.sharp := zoneStat.sharp s + 1\<rparr>) zn
            (countStat (\<lambda>s. s\<lparr>stats.sharp := stats.sharp s + 1\<rparr>) (keepEdge (fst e) st))
      | Long \<Rightarrow> countStat (\<lambda>s. s\<lparr>stats.long := stats.long s + 1\<rparr>) (keepEdge (fst e) st)
      | Coplanar \<Rightarrow>
          countZone (\<lambda>s. s\<lparr>zoneStat.coplanar := zoneStat.coplanar s + 1\<rparr>) zn
            (countStat (\<lambda>s. s\<lparr>stats.coplanar := stats.coplanar s + 1\<rparr>) st)
      | NonManifold \<Rightarrow> countStat (\<lambda>s. s\<lparr>stats.nonManifold := stats.nonManifold s + 1\<rparr>) (keepEdge (fst e) st))"
  by (cases e) (simp add: filterEdge_def classify_def Let_def)

lemma step_featureEdges:
  "fstate.featureEdges (filterEdge zs os m st e) =
     fstate.featureEdges st @ (if keptVerdict (classify zs os m e) then [edgeEnds (fst e)] else [])"
  by (cases "classify zs os m e")
     (simp_all add: filterEdge_classify keptVerdict_def countZone_def countStat_def keepEdge_def)

lemma step_stats:
  "fstate.stats (filterEdge zs os m st e) =
     (case classify zs os m e of
        TooShort \<Rightarrow> (fstate.stats st)\<lparr>stats.tooShort := stats.tooShort (fstate.stats st) + 1\<rparr>
      | BoundaryKept \<Rightarrow> (fstate.stats st)\<lparr>stats.boundary := stats.boundary (fstate.stats st) + 1\<rparr>
      | BoundaryDropped \<Rightarrow> fstate.stats st
      | Sharp \<Rightarrow> (fstate.stats st)\<lparr>stats.sharp := stats.sharp (fstate.stats st) + 1\<rparr>
      | Long \<Rightarrow> (fstate.stats st)\<lparr>stats.long := stats.long (fstate.stats st) + 1\<rparr>
      | Coplanar \<Rightarrow> (fstate.stats st)\<lparr>stats.coplanar := stats.coplanar (fstate.stats st) + 1\<rparr>
      | NonManifold \<Rightarrow> (fstate.stats st)\<lparr>stats.nonManifold := stats.nonManifold (fstate.stats st) + 1\<rparr>)"
  by (cases "classify zs os m e")
     (simp_all add: filterEdge_classify countZone_def countStat_def keepEdge_def)

lemma fold_featureEdges:
  "fstate.featureEdges (foldl (filterEdge zs os m) st em) =
     fstate.featureEdges st @ map (edgeEnds \<circ> fst) (filter (\<lambda>e. keptVerdict (classify zs os m e)) em)"
  by (induction em arbitrary: st) (simp_all add: step_featureEdges)

lemma fold_tooShort:
  "stats.tooShort (fstate.stats (foldl (filterEdge zs os m) st em)) =
     stats.tooShort (fstate.stats st) + length (filter (\<lambda>e. classify zs os m e = TooShort) em)"
  by (induction em arbitrary: st) (simp_all add: step_stats split: verdict.split)

lemma fold_sharp:
  "stats.sharp (fstate.stats (foldl (filterEdge zs os m) st em)) =
     stats.sharp (fstate.stats st) + length (filter (\<lambda>e. classify zs os m e = Sharp) em)"
  by (induction em arbitrary: st) (simp_all add: step_stats split: verdict.split)

lemma fold_long:
  "stats.long (fstate.stats (foldl (filterEdge zs os m) st em)) =
     stats.long (fstate.stats st) + length (filter (\<lambda>e. classify zs os m e = Long) em)"
  by (induction em arbitrary: st) (simp_all add: step_stats split: verdict.split)

lemma fold_boundary:
  "stats.boundary (fstate.stats (foldl (filterEdge zs os m) st em)) =
     stats.boundary (fstate.stats st) + length (filter (\<lambda>e. classify zs os m e = BoundaryKept) em)"
  by (induction em arbitrary: st) (simp_all add: step_stats split: verdict.split)

lemma fold_coplanar:
  "stats.coplanar (fstate.stats (foldl (filterEdge zs os m) st em)) =
     stats.coplanar (fstate.stats st) + length (filter (\<lambda>e. classify zs os m e = Coplanar) em)"
  by (induction em arbitrary: st) (simp_all add: step_stats split: verdict.split)

lemma fold_nonManifold:
  "stats.nonManifold (fstate.stats (foldl (filterEdge zs os m) st em)) =
     stats.nonManifold (fstate.stats st) + length (filter (\<lambda>e. classify zs os m e = NonManifold) em)"
  by (induction em arbitrary: st) (simp_all add: step_stats split: verdict.split)

lemma run_featureEdges:
  "fstate.featureEdges (filterEdges zs os m) =
     map (edgeEnds \<circ> fst) (filter (\<lambda>e. keptVerdict (classify zs os m e)) (buildEdgeFaces m))"
  by (simp add: filterEdges_def fold_featureEdges initState_def)

lemma run_counts:
  "stats.tooShort (fstate.stats (filterEdges zs os m)) =
     length (filter (\<lambda>e. classify zs os m e = TooShort) (buildEdgeFaces m))"
  "stats.sharp (fstate.stats (filterEdges zs os m)) =
     length (filter (\<lambda>e. classify zs os m e = Sharp) (buildEdgeFaces m))"
  "stats.long (fstate.stats (filterEdges zs os m)) =
     length (filter (\<lambda>e. classify zs os m e = Long) (buildEdgeFaces m))"
  "stats.boundary (fstate.stats (filterEdges zs os m)) =
     length (filter (\<lambda>e. classify zs os m e = BoundaryKept) (buildEdgeFaces m))"
  "stats.coplanar (fstate.stats (filterEdges zs os m)) =
     length (filter (\<lambda>e. classify zs os m e = Coplanar) (buildEdgeFaces m))"
  "stats.nonManifold (fstate.stats (filterEdges zs os m)) =
     length (filter (\<lambda>e. classify zs os m e = NonManifold) (buildEdgeFaces m))"
  by (simp_all add: filterEdges_def fold_tooShort fold_sharp fold_long fold_boundary
      fold_coplanar fold_nonManifold initState_def)

lemma kept_iff:
  assumes "(ek, faces) \<in> set (buildEdgeFaces m)"
  shows "edgeEnds ek \<in> set (fstate.featureEdges (filterEdges zs os m)) \<longleftrightarrow>
         keptVerdict (classify zs os m (ek, faces))"
proof
  assume "edgeEnds ek \<in> set (fstate.featureEdges (filterEdges zs os m))"
  then obtain k fs where e: "(k, fs) \<in> set (buildEdgeFaces m)"
      "keptVerdict (classify zs os m (k, fs))" "edgeEnds k = edgeEnds ek"
    by (auto simp: run_featureEdges)
  obtain a b where k: "k = edgeKey a b" using key_is_edgeKey[OF e(1)] by blast
  obtain c d where ek: "ek = edgeKey c d" using key_is_edgeKey[OF assms] by blast
  have "k = ek" using e(3) edgeEnds_inj_on_keys[of a b c d] by (simp add: k ek)
  then have "fs = faces"
    using e(1) assms entry_facesOf by metis
  with \<open>k = ek\<close> e(2) show "keptVerdict (classify zs os m (ek, faces))" by simp
next
  assume "keptVerdict (classify zs os m (ek, faces))"
  with assms show "edgeEnds ek \<in> set (fstate.featureEdges (filterEdges zs os m))"
    by (force simp: run_featureEdges)
qed

subsection \<open>The sample meshes\<close>

lemma faceRange_small:
  "faceRange (Fin 1) = [0]" "faceRange (Fin 2) = [0, 1]" "faceRange (Fin 3) = [0, 1, 2]"
  by (simp_all add: upt_rec)

lemma build_tri: "foldl (addTriangle [0, 1, 2]) [] [0] = [(''0_1'', [0]), (''1_2'', [0]), (''0_2'', [0])]"
  by code_simp

lemma build_folded: "foldl (addTriangle [0, 1, 2, 0, 2, 1]) [] [0, 1] = 
   [(''0_1'', [0, 1]), (''1_2'', [0, 1]), (''0_2'', [0, 1])]"
  by code_simp

lemma build_fan: "foldl (addTriangle [0, 1, 2, 0, 1, 3, 0, 1, 4]) [] [0, 1, 2] = 
   [(''0_1'', [0, 1, 2]), (''1_2'', [0]), (''0_2'', [0]), (''1_3'', [1]), (''0_3'', [1]), (''1_4'', [2]), (''0_4'', [2])]"
  by code_simp

lemma edges_flatTriangle: "buildEdgeFaces flatTriangle = [(''0_1'', [0]), (''1_2'', [0]), (''0_2'', [0])]"
  by (simp only: buildEdgeFaces_def flatTriangle_def mesh.select_convs faceRange_small build_tri)

lemma edges_foldedMesh: "buildEdgeFaces foldedMesh = [(''0_1'', [0, 1]), (''1_2'', [0, 1]), (''0_2'', [0, 1])]"
  by (simp only: buildEdgeFaces_def foldedMesh_def mesh.select_convs faceRange_small build_folded)

lemma edges_shortFan: "buildEdgeFaces shortFan =
  [(''0_1'', [0, 1, 2]), (''1_2'', [0]), (''0_2'', [0]), (''1_3'', [1]), (''0_3'', [1]), (''1_4'', [2]), (''0_4'', [2])]"
  by (simp only: buildEdgeFaces_def shortFan_def mesh.select_convs faceRange_small build_fan)

lemma edges_fanMesh: "buildEdgeFaces fanMesh =
  [(''0_1'', [0, 1, 2]), (''1_2'', [0]), (''0_2'', [0]), (''1_3'', [1]), (''0_3'', [1]), (''1_4'', [2]), (''0_4'', [2])]"
  by (simp only: buildEdgeFaces_def fanMesh_def mesh.select_convs faceRange_small build_fan)

lemma ends_01: "edgeEnds ''0_1'' = (Some 0, Some 1)"
  by code_simp
lemma ends_12: "edgeEnds ''1_2'' = (Some 1, Some 2)"
  by code_simp
lemma ends_02: "edgeEnds ''0_2'' = (Some 0, Some 2)"
  by code_simp

lemma sqrt_squares: "sqrt 9 = 3" "sqrt 16 = 4" "sqrt 25 = 5" "sqrt 144 = 12"
  by (simp_all add: real_sqrt_unique)

lemma len_flat_01: "edgeLen flatTriangle ''0_1'' = Fin 3"
  by (simp add: edgeLen_def ends_01 flatTriangle_def pos_at_def dist_vec_def sqrt_squares)

lemma mid_flat_01: "edgeMid flatTriangle ''0_1'' = (Fin (3/2), Fin 0, Fin 0)"
  by (simp add: edgeMid_def ends_01 flatTriangle_def pos_at_def)

lemma len_shortFan_01: "edgeLen shortFan ''0_1'' = Fin 1"
  by (simp add: edgeLen_def ends_01 shortFan_def pos_at_def dist_vec_def)

lemma mid_shortFan_01: "edgeMid shortFan ''0_1'' = (Fin (1/2), Fin 0, Fin 0)"
  by (simp add: edgeMid_def ends_01 shortFan_def pos_at_def)

lemma outside_zones: "y < 8 \<Longrightarrow> findZone ZONES (Fin x, Fin y, Fin z) = None"
  by (simp add: ZONES_def)

lemma default_minLength_outside: "y < 8 \<Longrightarrow> localMinLength ZONES defaults (Fin x, Fin y, Fin z) = Fin (9 / 5)"
  by (simp add: localMinLength_def edgeZone_def outside_zones defaults_def)

subsection \<open>Claims on the edge filter\<close>

lemma classify_simps:
  "classify zs os m (ek, faces) = TooShort \<longleftrightarrow>
     js_lt (edgeLen m ek) (localMinLength zs os (edgeMid m ek))"
  "classify zs os m (ek, faces) = BoundaryKept \<longleftrightarrow>
     \<not> js_lt (edgeLen m ek) (localMinLength zs os (edgeMid m ek)) \<and> length faces = 1 \<and>
     opts.boundary os"
  "classify zs os m (ek, faces) = Sharp \<longleftrightarrow>
     \<not> js_lt (edgeLen m ek) (localMinLength zs os (edgeMid m ek)) \<and> length faces = 2 \<and>
     js_gt (dihedral m faces) (localThresholdRad zs os (edgeMid m ek))"
  "classify zs os m (ek, faces) = Long \<longleftrightarrow>
     \<not> js_lt (edgeLen m ek) (localMinLength zs os (edgeMid m ek)) \<and> length faces = 2 \<and>
     \<not> js_gt (dihedral m faces) (localThresholdRad zs os (edgeMid m ek)) \<and>
     js_gt (edgeLen m ek) (opts.featureLength os)"
  "classify zs os m (ek, faces) = Coplanar \<longleftrightarrow>
     \<not> js_lt (edgeLen m ek) (localMinLength zs os (edgeMid m ek)) \<and> length faces = 2 \<and>
     \<not> js_gt (dihedral m faces) (localThresholdRad zs os (edgeMid m ek)) \<and>
     \<not> js_gt (edgeLen m ek) (opts.featureLength os)"
  "classify zs os m (ek, faces) = NonManifold \<longleftrightarrow>
     \<not> js_lt (edgeLen m ek) (localMinLength zs os (edgeMid m ek)) \<and> length faces \<noteq> 1 \<and>
     length faces \<noteq> 2"
  by (simp_all add: classify_def)

lemma filter_split_pair: "filter (\<lambda>e. P e) xs = filter (\<lambda>(k, fs). P (k, fs)) xs"
  by (simp add: case_prod_beta)

lemma meta_counts:
  "meta.tooShort (meta (extractFrom zs m os)) = stats.tooShort (fstate.stats (filterEdges zs os m))"
  "meta.sharp (meta (extractFrom zs m os)) = stats.sharp (fstate.stats (filterEdges zs os m))"
  "meta.long (meta (extractFrom zs m os)) = stats.long (fstate.stats (filterEdges zs os m))"
  "meta.boundary (meta (extractFrom zs m os)) = stats.boundary (fstate.stats (filterEdges zs os m))"
  "meta.coplanar (meta (extractFrom zs m os)) = stats.coplanar (fstate.stats (filterEdges zs os m))"
  "meta.nonManifold (meta (extractFrom zs m os)) = stats.nonManifold (fstate.stats (filterEdges zs os m))"
  "meta.featureEdges (meta (extractFrom zs m os)) = length (fstate.featureEdges (filterEdges zs os m))"
  by (simp_all add: extractFrom_def Let_def)

lemma localMinLength_eq:
  "localMinLength zs os mid =
     (if opts.zones os then
        (case findZone zs mid of Some z \<Rightarrow> Fin (zone.minLength z) | None \<Rightarrow> opts.minLength os)
      else opts.minLength os)"
  by (cases zs) (simp_all add: localMinLength_def edgeZone_def useZones_def)

text \<open>
  Claim C2. An edge whose length is below the effective minimum length (the minimum length
  of the first zone containing its midpoint when zone filtering is on, the global one
  otherwise) is not among the kept edges, whatever the number of its faces and its angle,
  and the reported too-short count is the number of such edges.
\<close>

theorem hard_floor:
  assumes "(ek, faces) \<in> set (buildEdgeFaces m)"
    and "js_lt (edgeLen m ek) (localMinLength zs os (edgeMid m ek))"
  shows "edgeEnds ek \<notin> set (fstate.featureEdges (filterEdges zs os m)) \<and>
     meta.tooShort (meta (extractFrom zs m os)) =
       length (filter (\<lambda>(k, fs). js_lt (edgeLen m k) (localMinLength zs os (edgeMid m k)))
         (buildEdgeFaces m)) \<and>
     localMinLength zs os (edgeMid m ek) =
       (if opts.zones os then
          (case findZone zs (edgeMid m ek) of Some z \<Rightarrow> Fin (zone.minLength z)
           | None \<Rightarrow> opts.minLength os)
        else opts.minLength os)"
proof (intro conjI)
  have "classify zs os m (ek, faces) = TooShort"
    using assms(2) by (simp add: classify_simps)
  then show "edgeEnds ek \<notin> set (fstate.featureEdges (filterEdges zs os m))"
    by (simp add: kept_iff[OF assms(1)] keptVerdict_def)
  show "meta.tooShort (meta (extractFrom zs m os)) =
       length (filter (\<lambda>(k, fs). js_lt (edgeLen m k) (localMinLength zs os (edgeMid m k)))
         (buildEdgeFaces m))"
    by (simp only: meta_counts run_counts filter_split_pair[of "\<lambda>e. classify zs os m e = TooShort"]
        classify_simps)
  show "localMinLength zs os (edgeMid m ek) =
       (if opts.zones os then
          (case findZone zs (edgeMid m ek) of Some z \<Rightarrow> Fin (zone.minLength z)
           | None \<Rightarrow> opts.minLength os)
        else opts.minLength os)"
    by (rule localMinLength_eq)
qed

theorem hard_floor_witness:
  "(''0_1'', [0, 1, 2]) \<in> set (buildEdgeFaces shortFan) \<and>
   js_lt (edgeLen shortFan ''0_1'') (localMinLength ZONES defaults (edgeMid shortFan ''0_1'')) \<and>
   edgeEnds ''0_1'' \<notin> set (fstate.featureEdges (filterEdges ZONES defaults shortFan))"
proof -
  have e: "(''0_1'', [0, 1, 2]) \<in> set (buildEdgeFaces shortFan)"
    by (simp add: edges_shortFan)
  have s: "js_lt (edgeLen shortFan ''0_1'')
      (localMinLength ZONES defaults (edgeMid shortFan ''0_1''))"
    by (simp add: len_shortFan_01 mid_shortFan_01 default_minLength_outside)
  show ?thesis
    using hard_floor[OF e s] e s by blast
qed

text \<open>
  Claim C3. Of the edges that pass the minimum-length floor, one with a single adjacent
  face is kept exactly when the boundary option is on, and one with three or more
  adjacent faces is always kept.
\<close>

theorem boundary_and_nonmanifold:
  assumes "(ek, faces) \<in> set (buildEdgeFaces m)"
    and "\<not> js_lt (edgeLen m ek) (localMinLength zs os (edgeMid m ek))"
  shows "(length faces = 1 \<longrightarrow>
        (edgeEnds ek \<in> set (fstate.featureEdges (filterEdges zs os m)) \<longleftrightarrow> opts.boundary os)) \<and>
     (3 \<le> length faces \<longrightarrow> edgeEnds ek \<in> set (fstate.featureEdges (filterEdges zs os m)))"
proof (intro conjI impI)
  assume "length faces = 1"
  then have "classify zs os m (ek, faces) =
      (if opts.boundary os then BoundaryKept else BoundaryDropped)"
    using assms(2) by (simp add: classify_def)
  then show "edgeEnds ek \<in> set (fstate.featureEdges (filterEdges zs os m)) \<longleftrightarrow> opts.boundary os"
    by (simp add: kept_iff[OF assms(1)] keptVerdict_def)
next
  assume "3 \<le> length faces"
  then have "classify zs os m (ek, faces) = NonManifold"
    using assms(2) by (simp add: classify_simps)
  then show "edgeEnds ek \<in> set (fstate.featureEdges (filterEdges zs os m))"
    by (simp add: kept_iff[OF assms(1)] keptVerdict_def)
qed

lemma len_fan_01: "edgeLen fanMesh ''0_1'' = Fin 3"
  by (simp add: edgeLen_def ends_01 fanMesh_def pos_at_def dist_vec_def sqrt_squares)

lemma mid_fan_01: "edgeMid fanMesh ''0_1'' = (Fin (3/2), Fin 0, Fin 0)"
  by (simp add: edgeMid_def ends_01 fanMesh_def pos_at_def)

theorem boundary_and_nonmanifold_witness:
  "edgeEnds ''0_1'' \<in> set (fstate.featureEdges (filterEdges ZONES defaults flatTriangle)) \<and>
   edgeEnds ''0_1'' \<notin> set (fstate.featureEdges
      (filterEdges ZONES (defaults\<lparr>opts.boundary := False\<rparr>) flatTriangle)) \<and>
   edgeEnds ''0_1'' \<in> set (fstate.featureEdges (filterEdges ZONES defaults fanMesh))"
proof -
  have e1: "(''0_1'', [0]) \<in> set (buildEdgeFaces flatTriangle)"
    by (simp add: edges_flatTriangle)
  have s1: "\<not> js_lt (edgeLen flatTriangle ''0_1'')
      (localMinLength ZONES defaults (edgeMid flatTriangle ''0_1''))"
    by (simp add: len_flat_01 mid_flat_01 default_minLength_outside)
  have s2: "\<not> js_lt (edgeLen flatTriangle ''0_1'')
      (localMinLength ZONES (defaults\<lparr>opts.boundary := False\<rparr>) (edgeMid flatTriangle ''0_1''))"
    by (simp add: len_flat_01 mid_flat_01 localMinLength_def edgeZone_def outside_zones defaults_def)
  have e3: "(''0_1'', [0, 1, 2]) \<in> set (buildEdgeFaces fanMesh)"
    by (simp add: edges_fanMesh)
  have s3: "\<not> js_lt (edgeLen fanMesh ''0_1'')
      (localMinLength ZONES defaults (edgeMid fanMesh ''0_1''))"
    by (simp add: len_fan_01 mid_fan_01 default_minLength_outside)
  show ?thesis
    using boundary_and_nonmanifold[OF e1 s1] boundary_and_nonmanifold[OF e1 s2]
      boundary_and_nonmanifold[OF e3 s3]
    by (simp add: defaults_def)
qed

subsection \<open>Claims on the kept categories and on interior edges\<close>

lemma normal_folded_0: "faceNormal foldedMesh 0 = (Fin 0, Fin 0, Fin 1)"
  by (simp add: faceNormal_def foldedMesh_def idx_at_def pos_at_def sqrt_squares Let_def)

lemma normal_folded_1: "faceNormal foldedMesh 1 = (Fin 0, Fin 0, Fin (- 1))"
  by (simp add: faceNormal_def foldedMesh_def idx_at_def pos_at_def sqrt_squares Let_def)

lemma normals_folded: "faceNormals foldedMesh = [(Fin 0, Fin 0, Fin 1), (Fin 0, Fin 0, Fin (- 1))]"
proof -
  have tc: "triangleCount foldedMesh = Fin 2"
    by (simp add: foldedMesh_def)
  show ?thesis
    unfolding faceNormals_def tc faceRange_small
    by (simp only: list.map normal_folded_0 normal_folded_1)
qed

lemma dihedral_folded: "dihedral foldedMesh [0, Suc 0] = Fin pi"
  by (simp add: dihedral_def normals_folded Let_def)

lemma len_folded:
  "edgeLen foldedMesh ''0_1'' = Fin 3"
  "edgeLen foldedMesh ''1_2'' = Fin 5"
  "edgeLen foldedMesh ''0_2'' = Fin 4"
  by (simp_all add: edgeLen_def ends_01 ends_12 ends_02 foldedMesh_def pos_at_def dist_vec_def
      sqrt_squares)

lemma mid_folded:
  "edgeMid foldedMesh ''0_1'' = (Fin (3 / 2), Fin 0, Fin 0)"
  "edgeMid foldedMesh ''1_2'' = (Fin (3 / 2), Fin 2, Fin 0)"
  "edgeMid foldedMesh ''0_2'' = (Fin 0, Fin 2, Fin 0)"
  by (simp_all add: edgeMid_def ends_01 ends_12 ends_02 foldedMesh_def pos_at_def)

lemma outside_edgeZone: "y < 8 \<Longrightarrow> edgeZone ZONES os (Fin x, Fin y, Fin z) = None"
  by (simp add: edgeZone_def outside_zones)

lemma kept_length_split:
  "length (filter (\<lambda>e. keptVerdict (f e)) xs) =
     length (filter (\<lambda>e. f e = Sharp) xs) + length (filter (\<lambda>e. f e = Long) xs) +
     length (filter (\<lambda>e. f e = BoundaryKept) xs) + length (filter (\<lambda>e. f e = NonManifold) xs)"
  by (induction xs) (auto simp: keptVerdict_def)

lemma length_outIndices: "length (outIndices vm fes) = 2 * length fes"
  by (induction fes) (auto simp: outIndices_def)

lemma result_indices:
  "result.indices (extractFrom zs m os) =
     outIndices (vertexMap (compactVertices (positions m)
        (usedVertices (fstate.featureEdges (filterEdges zs os m)))))
       (fstate.featureEdges (filterEdges zs os m))"
  by (simp add: extractFrom_def Let_def)

text \<open>
  Claim C10. The kept edges are partitioned by the four kept categories: the reported
  number of feature edges, which is half the length of the output index array, is the sum
  of the sharp, long, boundary and non-manifold counts; an interior edge past the floor
  whose angle exceeds the threshold is counted as sharp whatever its length, and only the
  others can be counted as long.
\<close>

theorem kept_partition:
  "meta.featureEdges (meta (extractFrom zs m os)) =
     meta.sharp (meta (extractFrom zs m os)) + meta.long (meta (extractFrom zs m os)) +
     meta.boundary (meta (extractFrom zs m os)) + meta.nonManifold (meta (extractFrom zs m os)) \<and>
   meta.featureEdges (meta (extractFrom zs m os)) =
     length (fstate.featureEdges (filterEdges zs os m)) \<and>
   length (result.indices (extractFrom zs m os)) =
     2 * meta.featureEdges (meta (extractFrom zs m os)) \<and>
   meta.sharp (meta (extractFrom zs m os)) =
     length (filter (\<lambda>(k, fs).
         \<not> js_lt (edgeLen m k) (localMinLength zs os (edgeMid m k)) \<and> length fs = 2 \<and>
         js_gt (dihedral m fs) (localThresholdRad zs os (edgeMid m k)))
       (buildEdgeFaces m)) \<and>
   meta.long (meta (extractFrom zs m os)) =
     length (filter (\<lambda>(k, fs).
         \<not> js_lt (edgeLen m k) (localMinLength zs os (edgeMid m k)) \<and> length fs = 2 \<and>
         \<not> js_gt (dihedral m fs) (localThresholdRad zs os (edgeMid m k)) \<and>
         js_gt (edgeLen m k) (opts.featureLength os))
       (buildEdgeFaces m))"
proof (intro conjI)
  show "meta.featureEdges (meta (extractFrom zs m os)) =
     meta.sharp (meta (extractFrom zs m os)) + meta.long (meta (extractFrom zs m os)) +
     meta.boundary (meta (extractFrom zs m os)) + meta.nonManifold (meta (extractFrom zs m os))"
    by (simp only: meta_counts run_counts run_featureEdges length_map kept_length_split)
  show "meta.featureEdges (meta (extractFrom zs m os)) =
     length (fstate.featureEdges (filterEdges zs os m))"
    by (simp only: meta_counts)
  show "length (result.indices (extractFrom zs m os)) =
     2 * meta.featureEdges (meta (extractFrom zs m os))"
    by (simp only: meta_counts result_indices length_outIndices)
  show "meta.sharp (meta (extractFrom zs m os)) =
     length (filter (\<lambda>(k, fs).
         \<not> js_lt (edgeLen m k) (localMinLength zs os (edgeMid m k)) \<and> length fs = 2 \<and>
         js_gt (dihedral m fs) (localThresholdRad zs os (edgeMid m k)))
       (buildEdgeFaces m))"
    by (simp only: meta_counts run_counts filter_split_pair[of "\<lambda>e. classify zs os m e = Sharp"]
        classify_simps)
  show "meta.long (meta (extractFrom zs m os)) =
     length (filter (\<lambda>(k, fs).
         \<not> js_lt (edgeLen m k) (localMinLength zs os (edgeMid m k)) \<and> length fs = 2 \<and>
         \<not> js_gt (dihedral m fs) (localThresholdRad zs os (edgeMid m k)) \<and>
         js_gt (edgeLen m k) (opts.featureLength os))
       (buildEdgeFaces m))"
    by (simp only: meta_counts run_counts filter_split_pair[of "\<lambda>e. classify zs os m e = Long"]
        classify_simps)
qed

lemma thresholdRad_outside:
  "y < 8 \<Longrightarrow> localThresholdRad ZONES os (Fin x, Fin y, Fin z) =
     js_div (js_mul (opts.threshold os) (Fin pi)) (Fin 180)"
  by (simp add: localThresholdRad_def localThreshold_def outside_edgeZone js_pi_def)

lemma minLength_outside:
  "y < 8 \<Longrightarrow> localMinLength ZONES os (Fin x, Fin y, Fin z) = opts.minLength os"
  by (simp add: localMinLength_def outside_edgeZone)

theorem kept_partition_witness:
  "meta.sharp (meta (extractFrom ZONES foldedMesh lowFeature)) = 3 \<and>
   meta.long (meta (extractFrom ZONES foldedMesh lowFeature)) = 0 \<and>
   js_gt (edgeLen foldedMesh ''0_1'') (opts.featureLength lowFeature) \<and>
   meta.featureEdges (meta (extractFrom ZONES foldedMesh lowFeature)) = 3 \<and>
   length (result.indices (extractFrom ZONES foldedMesh lowFeature)) = 6"
proof -
  note inst = kept_partition[of ZONES foldedMesh lowFeature]
  note total = inst[THEN conjunct1]
  note pairs = inst[THEN conjunct2, THEN conjunct2, THEN conjunct1]
  note sharps = inst[THEN conjunct2, THEN conjunct2, THEN conjunct2, THEN conjunct1]
  note longs = inst[THEN conjunct2, THEN conjunct2, THEN conjunct2, THEN conjunct2]
  have sharp: "meta.sharp (meta (extractFrom ZONES foldedMesh lowFeature)) = 3"
    by (subst sharps)
      (simp add: edges_foldedMesh len_folded mid_folded dihedral_folded minLength_outside
        thresholdRad_outside lowFeature_def defaults_def)
  have long: "meta.long (meta (extractFrom ZONES foldedMesh lowFeature)) = 0"
    by (subst longs)
      (simp add: edges_foldedMesh len_folded mid_folded dihedral_folded minLength_outside
        thresholdRad_outside lowFeature_def defaults_def)
  have bnd: "meta.boundary (meta (extractFrom ZONES foldedMesh lowFeature)) = 0"
    by (simp add: meta_counts run_counts edges_foldedMesh classify_simps)
  have non: "meta.nonManifold (meta (extractFrom ZONES foldedMesh lowFeature)) = 0"
    by (simp add: meta_counts run_counts edges_foldedMesh classify_simps)
  have fe: "meta.featureEdges (meta (extractFrom ZONES foldedMesh lowFeature)) = 3"
    by (subst total) (simp add: sharp long bnd non)
  have out: "length (result.indices (extractFrom ZONES foldedMesh lowFeature)) = 6"
    by (subst pairs) (simp add: fe)
  have "js_gt (edgeLen foldedMesh ''0_1'') (opts.featureLength lowFeature)"
    by (simp add: len_folded lowFeature_def defaults_def)
  with sharp long fe out show ?thesis
    by blast
qed

lemma dihedral_normals:
  assumes "(ek, faces) \<in> set (buildEdgeFaces m)" and "length faces = 2"
  shows "dihedral m faces =
     js_acos (js_max (Fin (- 1)) (js_min (Fin 1)
       (dot (faceNormal m (faces ! 0)) (faceNormal m (faces ! 1)))))"
proof -
  have "faces ! 0 \<in> set faces" "faces ! 1 \<in> set faces"
    using assms(2) by simp_all
  then have "faceNormals m ! (faces ! 0) = faceNormal m (faces ! 0)"
      "faceNormals m ! (faces ! 1) = faceNormal m (faces ! 1)"
    using faces_in_range[OF assms(1)] by blast+
  then show ?thesis
    by (simp add: dihedral_def Let_def)
qed

lemma localThreshold_eq:
  "localThreshold zs os mid =
     (if opts.zones os then
        (case findZone zs mid of Some z \<Rightarrow> Fin (zone.threshold z) | None \<Rightarrow> opts.threshold os)
      else opts.threshold os)"
  by (cases zs) (simp_all add: localThreshold_def edgeZone_def useZones_def)

lemma js_gt_flip: "js_gt a b \<longleftrightarrow> js_lt b a"
  by (cases a; cases b) auto

lemma clamped_angle:
  "js_acos (js_max (Fin (- 1)) (js_min (Fin 1) (Fin d))) = Fin (arccos (max (- 1) (min 1 d)))"
  by (simp add: min_def max_def)

text \<open>
  Claim C1, as amended. An edge with two adjacent faces whose length is not below the
  effective minimum length is kept exactly when its dihedral angle (the arccosine of the
  dot product of the two face normals, clamped to the interval from -1 to 1) exceeds the
  effective threshold converted to radians, or its length exceeds the global feature
  length; otherwise it is dropped and counted as coplanar. When the computed dot product
  is 1 or more the angle is 0, and an edge of angle 0 is kept only for its length,
  provided the threshold in radians is not negative; when the computed dot product is
  -1 or less the angle is \<open>pi\<close>, and an edge of angle \<open>pi\<close> is sharp and kept,
  provided the threshold in radians is below \<open>pi\<close>. Nothing is said of faces whose
  normals are equal or opposite only up to rounding.
\<close>

theorem interior_edges:
  assumes "(ek, faces) \<in> set (buildEdgeFaces m)"
    and "length faces = 2"
    and "\<not> js_lt (edgeLen m ek) (localMinLength zs os (edgeMid m ek))"
  shows "(edgeEnds ek \<in> set (fstate.featureEdges (filterEdges zs os m)) \<longleftrightarrow>
        js_gt (dihedral m faces) (localThresholdRad zs os (edgeMid m ek)) \<or>
        js_gt (edgeLen m ek) (opts.featureLength os)) \<and>
     dihedral m faces =
       js_acos (js_max (Fin (- 1)) (js_min (Fin 1)
         (dot (faceNormal m (faces ! 0)) (faceNormal m (faces ! 1))))) \<and>
     localThresholdRad zs os (edgeMid m ek) =
       js_div (js_mul (localThreshold zs os (edgeMid m ek)) (Fin pi)) (Fin 180) \<and>
     localThreshold zs os (edgeMid m ek) =
       (if opts.zones os then
          (case findZone zs (edgeMid m ek) of Some z \<Rightarrow> Fin (zone.threshold z)
           | None \<Rightarrow> opts.threshold os)
        else opts.threshold os) \<and>
     meta.coplanar (meta (extractFrom zs m os)) =
       length (filter (\<lambda>(k, fs).
           \<not> js_lt (edgeLen m k) (localMinLength zs os (edgeMid m k)) \<and> length fs = 2 \<and>
           \<not> js_gt (dihedral m fs) (localThresholdRad zs os (edgeMid m k)) \<and>
           \<not> js_gt (edgeLen m k) (opts.featureLength os))
         (buildEdgeFaces m)) \<and>
     (\<forall>d. dot (faceNormal m (faces ! 0)) (faceNormal m (faces ! 1)) = Fin d \<and> 1 \<le> d \<longrightarrow>
        dihedral m faces = Fin 0) \<and>
     (\<forall>d. dot (faceNormal m (faces ! 0)) (faceNormal m (faces ! 1)) = Fin d \<and> d \<le> - 1 \<longrightarrow>
        dihedral m faces = Fin pi) \<and>
     (dihedral m faces = Fin 0 \<and>
      \<not> js_lt (localThresholdRad zs os (edgeMid m ek)) (Fin 0) \<longrightarrow>
        \<not> js_gt (dihedral m faces) (localThresholdRad zs os (edgeMid m ek)) \<and>
        (edgeEnds ek \<in> set (fstate.featureEdges (filterEdges zs os m)) \<longleftrightarrow>
           js_gt (edgeLen m ek) (opts.featureLength os))) \<and>
     (dihedral m faces = Fin pi \<and>
      js_lt (localThresholdRad zs os (edgeMid m ek)) (Fin pi) \<longrightarrow>
        js_gt (dihedral m faces) (localThresholdRad zs os (edgeMid m ek)) \<and>
        edgeEnds ek \<in> set (fstate.featureEdges (filterEdges zs os m)))"
proof -
  let ?kept = "edgeEnds ek \<in> set (fstate.featureEdges (filterEdges zs os m))"
  let ?sharp = "js_gt (dihedral m faces) (localThresholdRad zs os (edgeMid m ek))"
  let ?long = "js_gt (edgeLen m ek) (opts.featureLength os)"
  let ?dot = "dot (faceNormal m (faces ! 0)) (faceNormal m (faces ! 1))"
  have kept: "?kept \<longleftrightarrow> ?sharp \<or> ?long"
    using assms(2,3) by (auto simp: kept_iff[OF assms(1)] keptVerdict_def classify_def)
  have angle: "dihedral m faces = js_acos (js_max (Fin (- 1)) (js_min (Fin 1) ?dot))"
    by (rule dihedral_normals[OF assms(1,2)])
  have rad: "localThresholdRad zs os (edgeMid m ek) =
       js_div (js_mul (localThreshold zs os (edgeMid m ek)) (Fin pi)) (Fin 180)"
    by (simp add: localThresholdRad_def js_pi_def)
  have count: "meta.coplanar (meta (extractFrom zs m os)) =
       length (filter (\<lambda>(k, fs).
           \<not> js_lt (edgeLen m k) (localMinLength zs os (edgeMid m k)) \<and> length fs = 2 \<and>
           \<not> js_gt (dihedral m fs) (localThresholdRad zs os (edgeMid m k)) \<and>
           \<not> js_gt (edgeLen m k) (opts.featureLength os))
         (buildEdgeFaces m))"
    by (simp only: meta_counts run_counts
        filter_split_pair[of "\<lambda>e. classify zs os m e = Coplanar"] classify_simps)
  have high: "dihedral m faces = Fin 0" if "?dot = Fin d" and "1 \<le> d" for d
    unfolding angle that(1) clamped_angle using that(2) by simp
  have low: "dihedral m faces = Fin pi" if "?dot = Fin d" and "d \<le> - 1" for d
    unfolding angle that(1) clamped_angle using that(2) by simp
  have zero: "\<not> ?sharp \<and> (?kept \<longleftrightarrow> ?long)"
    if "dihedral m faces = Fin 0"
      and "\<not> js_lt (localThresholdRad zs os (edgeMid m ek)) (Fin 0)"
  proof -
    have "\<not> ?sharp"
      unfolding that(1) js_gt_flip by (rule that(2))
    with kept show ?thesis by simp
  qed
  have straight: "?sharp \<and> ?kept"
    if "dihedral m faces = Fin pi"
      and "js_lt (localThresholdRad zs os (edgeMid m ek)) (Fin pi)"
  proof -
    have "?sharp"
      unfolding that(1) js_gt_flip by (rule that(2))
    with kept show ?thesis by simp
  qed
  show ?thesis
    using kept angle rad localThreshold_eq[of zs os "edgeMid m ek"] count high low zero
      straight
    by blast
qed

lemma build_quad: "foldl (addTriangle [0, 1, 2, 2, 1, 3]) [] [0, 1] =
   [(''0_1'', [0]), (''1_2'', [0, 1]), (''0_2'', [0]), (''1_3'', [1]), (''2_3'', [1])]"
  by code_simp

lemma edges_flatQuad: "buildEdgeFaces flatQuad =
   [(''0_1'', [0]), (''1_2'', [0, 1]), (''0_2'', [0]), (''1_3'', [1]), (''2_3'', [1])]"
  by (simp only: buildEdgeFaces_def flatQuad_def mesh.select_convs faceRange_small build_quad)

lemma normal_quad_0: "faceNormal flatQuad 0 = (Fin 0, Fin 0, Fin 1)"
  by (simp add: faceNormal_def flatQuad_def idx_at_def pos_at_def sqrt_squares Let_def)

lemma normal_quad_1: "faceNormal flatQuad 1 = (Fin 0, Fin 0, Fin 1)"
  by (simp add: faceNormal_def flatQuad_def idx_at_def pos_at_def sqrt_squares Let_def)

lemma len_quad_12: "edgeLen flatQuad ''1_2'' = Fin 5"
  by (simp add: edgeLen_def ends_12 flatQuad_def pos_at_def dist_vec_def sqrt_squares)

lemma mid_quad_12: "edgeMid flatQuad ''1_2'' = (Fin (3 / 2), Fin 2, Fin 0)"
  by (simp add: edgeMid_def ends_12 flatQuad_def pos_at_def)

lemma dot_quad:
  "dot (faceNormal flatQuad ([0, 1] ! 0)) (faceNormal flatQuad ([0, 1] ! 1)) = Fin 1"
  using normal_quad_0 normal_quad_1 by simp

lemma dot_folded:
  "dot (faceNormal foldedMesh ([0, 1] ! 0)) (faceNormal foldedMesh ([0, 1] ! 1)) = Fin (- 1)"
  using normal_folded_0 normal_folded_1 by simp

theorem interior_edges_witness:
  "dot (faceNormal flatQuad ([0, 1] ! 0)) (faceNormal flatQuad ([0, 1] ! 1)) = Fin 1 \<and>
   dihedral flatQuad [0, 1] = Fin 0 \<and>
   edgeEnds ''1_2'' \<notin> set (fstate.featureEdges (filterEdges ZONES defaults flatQuad)) \<and>
   dot (faceNormal foldedMesh ([0, 1] ! 0)) (faceNormal foldedMesh ([0, 1] ! 1)) = Fin (- 1) \<and>
   dihedral foldedMesh [0, 1] = Fin pi \<and>
   edgeEnds ''0_1'' \<in> set (fstate.featureEdges (filterEdges ZONES defaults foldedMesh))"
proof -
  have l: "length [0, 1 :: nat] = 2"
    by simp
  have e1: "(''1_2'', [0, 1]) \<in> set (buildEdgeFaces flatQuad)"
    by (simp add: edges_flatQuad)
  have s1: "\<not> js_lt (edgeLen flatQuad ''1_2'')
      (localMinLength ZONES defaults (edgeMid flatQuad ''1_2''))"
    by (simp add: len_quad_12 mid_quad_12 default_minLength_outside)
  note quad = interior_edges[OF e1 l s1]
  have d1: "dot (faceNormal flatQuad ([0, 1] ! 0)) (faceNormal flatQuad ([0, 1] ! 1)) = Fin 1 \<and>
      (1::real) \<le> 1"
    using dot_quad by simp
  have a1: "dihedral flatQuad [0, 1] = Fin 0"
    using quad d1 by blast
  have t1: "\<not> js_lt (localThresholdRad ZONES defaults (edgeMid flatQuad ''1_2'')) (Fin 0)"
    by (simp add: mid_quad_12 thresholdRad_outside defaults_def)
  have nl: "\<not> js_gt (edgeLen flatQuad ''1_2'') (opts.featureLength defaults)"
    by (simp add: len_quad_12 defaults_def)
  have k1: "edgeEnds ''1_2'' \<notin> set (fstate.featureEdges (filterEdges ZONES defaults flatQuad))"
    using quad a1 t1 nl by blast
  have e2: "(''0_1'', [0, 1]) \<in> set (buildEdgeFaces foldedMesh)"
    by (simp add: edges_foldedMesh)
  have s2: "\<not> js_lt (edgeLen foldedMesh ''0_1'')
      (localMinLength ZONES defaults (edgeMid foldedMesh ''0_1''))"
    by (simp add: len_folded mid_folded default_minLength_outside)
  note folded = interior_edges[OF e2 l s2]
  have d2: "dot (faceNormal foldedMesh ([0, 1] ! 0)) (faceNormal foldedMesh ([0, 1] ! 1)) =
      Fin (- 1) \<and> (- 1::real) \<le> - 1"
    using dot_folded by simp
  have a2: "dihedral foldedMesh [0, 1] = Fin pi"
    using folded d2 by blast
  have t2: "js_lt (localThresholdRad ZONES defaults (edgeMid foldedMesh ''0_1'')) (Fin pi)"
    by (simp add: mid_folded thresholdRad_outside defaults_def)
  have k2: "edgeEnds ''0_1'' \<in> set (fstate.featureEdges (filterEdges ZONES defaults foldedMesh))"
    using folded a2 t2 by blast
  from dot_quad a1 k1 dot_folded a2 k2 show ?thesis
    by blast
qed

lemma classify_folded_wide:
  "classify ZONES wideOpts foldedMesh (''0_1'', [0, Suc 0]) = Coplanar"
  "classify ZONES wideOpts foldedMesh (''1_2'', [0, Suc 0]) = Coplanar"
  "classify ZONES wideOpts foldedMesh (''0_2'', [0, Suc 0]) = Coplanar"
  by (simp_all add: classify_def len_folded mid_folded dihedral_folded minLength_outside
      thresholdRad_outside wideOpts_def defaults_def)

lemma normals_quad: "faceNormals flatQuad = [(Fin 0, Fin 0, Fin 1), (Fin 0, Fin 0, Fin 1)]"
proof -
  have tc: "triangleCount flatQuad = Fin 2"
    by (simp add: flatQuad_def)
  show ?thesis
    unfolding faceNormals_def tc faceRange_small
    by (simp only: list.map normal_quad_0 normal_quad_1)
qed

lemma dihedral_quad: "dihedral flatQuad [0, Suc 0] = Fin 0"
  by (simp add: dihedral_def normals_quad Let_def)

lemma classify_quad_neg:
  "classify ZONES negOpts flatQuad (''1_2'', [0, Suc 0]) = Sharp"
  by (simp add: classify_def len_quad_12 mid_quad_12 dihedral_quad minLength_outside
      thresholdRad_outside negOpts_def defaults_def)

theorem interior_edges_counterexample:
  "(''0_1'', [0, 1]) \<in> set (buildEdgeFaces foldedMesh) \<and>
   \<not> js_lt (edgeLen foldedMesh ''0_1'')
      (localMinLength ZONES wideOpts (edgeMid foldedMesh ''0_1'')) \<and>
   faceNormal foldedMesh 0 = (Fin 0, Fin 0, Fin 1) \<and>
   faceNormal foldedMesh 1 = (Fin 0, Fin 0, Fin (- 1)) \<and>
   dihedral foldedMesh [0, 1] = Fin pi \<and>
   edgeEnds ''0_1'' \<notin> set (fstate.featureEdges (filterEdges ZONES wideOpts foldedMesh)) \<and>
   meta.sharp (meta (extractFrom ZONES foldedMesh wideOpts)) = 0 \<and>
   meta.coplanar (meta (extractFrom ZONES foldedMesh wideOpts)) = 3 \<and>
   (''1_2'', [0, 1]) \<in> set (buildEdgeFaces flatQuad) \<and>
   faceNormal flatQuad 0 = (Fin 0, Fin 0, Fin 1) \<and>
   faceNormal flatQuad 1 = (Fin 0, Fin 0, Fin 1) \<and>
   dihedral flatQuad [0, 1] = Fin 0 \<and>
   \<not> js_gt (edgeLen flatQuad ''1_2'') (opts.featureLength negOpts) \<and>
   edgeEnds ''1_2'' \<in> set (fstate.featureEdges (filterEdges ZONES negOpts flatQuad))"
proof -
  have e: "(''0_1'', [0, Suc 0]) \<in> set (buildEdgeFaces foldedMesh)"
    by (simp add: edges_foldedMesh)
  have s: "\<not> js_lt (edgeLen foldedMesh ''0_1'')
      (localMinLength ZONES wideOpts (edgeMid foldedMesh ''0_1''))"
    by (simp add: len_folded mid_folded minLength_outside wideOpts_def defaults_def)
  have k: "edgeEnds ''0_1'' \<notin> set (fstate.featureEdges (filterEdges ZONES wideOpts foldedMesh))"
    by (simp add: kept_iff[OF e] classify_folded_wide keptVerdict_def)
  have c1: "meta.sharp (meta (extractFrom ZONES foldedMesh wideOpts)) = 0"
    by (simp add: meta_counts run_counts edges_foldedMesh classify_folded_wide)
  have c2: "meta.coplanar (meta (extractFrom ZONES foldedMesh wideOpts)) = 3"
    by (simp add: meta_counts run_counts edges_foldedMesh classify_folded_wide)
  have q: "(''1_2'', [0, Suc 0]) \<in> set (buildEdgeFaces flatQuad)"
    by (simp add: edges_flatQuad)
  have kq: "edgeEnds ''1_2'' \<in> set (fstate.featureEdges (filterEdges ZONES negOpts flatQuad))"
    by (simp add: kept_iff[OF q] classify_quad_neg keptVerdict_def)
  have nl: "\<not> js_gt (edgeLen flatQuad ''1_2'') (opts.featureLength negOpts)"
    by (simp add: len_quad_12 negOpts_def defaults_def)
  show ?thesis
    using e s k c1 c2 q kq nl normal_folded_0 normal_folded_1 dihedral_folded
      normal_quad_0 normal_quad_1 dihedral_quad
    by simp
qed

subsection \<open>Claim on the compacted output\<close>

lemma set_addUsed: "set (addUsed used v) = insert v (set used)"
  by (auto simp: addUsed_def)

lemma distinct_addUsed: "distinct used \<Longrightarrow> distinct (addUsed used v)"
  by (simp add: addUsed_def)

lemma used_fold:
  "set (foldl (\<lambda>used (a, b). addUsed (addUsed used a) b) acc fes) =
     set acc \<union> fst ` set fes \<union> snd ` set fes"
  by (induction fes arbitrary: acc) (auto simp: set_addUsed)

lemma used_fold_distinct:
  "distinct acc \<Longrightarrow> distinct (foldl (\<lambda>used (a, b). addUsed (addUsed used a) b) acc fes)"
  by (induction fes arbitrary: acc) (auto simp: distinct_addUsed)

lemma set_usedVertices: "set (usedVertices fes) = fst ` set fes \<union> snd ` set fes"
  by (simp add: usedVertices_def used_fold)

lemma distinct_usedVertices: "distinct (usedVertices fes)"
  by (simp add: usedVertices_def used_fold_distinct)

lemma length_coords: "length (coords ps v) = 3"
  by (simp add: coords_def split: prod.split)

lemma compactStep_fields:
  "vertexMap (compactStep ps c v) = (vertexMap c)(v \<mapsto> idx c)"
  "outVertices (compactStep ps c v) = outVertices c @ coords ps v"
  "idx (compactStep ps c v) = idx c + 1"
  by (simp_all add: compactStep_def coords_def split: prod.split)

lemma compact_out:
  "outVertices (foldl (compactStep ps) c vs) = outVertices c @ concat (map (coords ps) vs)"
  by (induction vs arbitrary: c) (simp_all add: compactStep_fields)

lemma compact_idx: "idx (foldl (compactStep ps) c vs) = idx c + length vs"
  by (induction vs arbitrary: c) (simp_all add: compactStep_fields)

lemma compact_map_other:
  "v \<notin> set vs \<Longrightarrow> vertexMap (foldl (compactStep ps) c vs) v = vertexMap c v"
  by (induction vs arbitrary: c) (simp_all add: compactStep_fields)

lemma compact_map_nth:
  "distinct vs \<Longrightarrow> i < length vs \<Longrightarrow>
     vertexMap (foldl (compactStep ps) c vs) (vs ! i) = Some (idx c + i)"
proof (induction vs arbitrary: c i)
  case Nil
  then show ?case by simp
next
  case (Cons v vs)
  show ?case
  proof (cases i)
    case 0
    then show ?thesis
      using Cons.prems by (simp add: compact_map_other compactStep_fields)
  next
    case (Suc j)
    then show ?thesis
      using Cons.prems Cons.IH[of j "compactStep ps c v"] by (simp add: compactStep_fields)
  qed
qed

lemma length_concat_coords: "length (concat (map (coords ps) vs)) = 3 * length vs"
  by (induction vs) (simp_all add: length_coords)

lemma compactVertices_length:
  "length (outVertices (compactVertices ps used)) = 3 * length used"
  by (simp add: compactVertices_def compact_out length_concat_coords)

lemma compactVertices_map:
  "distinct used \<Longrightarrow> i < length used \<Longrightarrow>
     vertexMap (compactVertices ps used) (used ! i) = Some i"
  using compact_map_nth[of used i ps "\<lparr>vertexMap = Map.empty, outVertices = [], idx = 0\<rparr>"]
  by (simp add: compactVertices_def)

lemma nth_concat_coords:
  "i < length vs \<Longrightarrow> k < 3 \<Longrightarrow> concat (map (coords ps) vs) ! (3 * i + k) = coords ps (vs ! i) ! k"
proof (induction vs arbitrary: i)
  case Nil
  then show ?case by simp
next
  case (Cons v vs)
  show ?case
  proof (cases i)
    case 0
    then show ?thesis using Cons.prems by (simp add: nth_append length_coords)
  next
    case (Suc j)
    then have "3 * i + k = 3 + (3 * j + k)" by simp
    then show ?thesis
      using Cons.prems Cons.IH[of j] Suc by (simp add: nth_append length_coords)
  qed
qed

lemma compactVertices_coords:
  assumes "i < length used" and "k < 3"
  shows "outVertices (compactVertices ps used) ! (3 * i + k) = coords ps (used ! i) ! k"
  using nth_concat_coords[OF assms] by (simp add: compactVertices_def compact_out)

lemma result_vertices:
  "result.vertices (extractFrom zs m os) =
     outVertices (compactVertices (positions m)
        (usedVertices (fstate.featureEdges (filterEdges zs os m))))"
  by (simp add: extractFrom_def Let_def)

lemma set_outIndices: "set (outIndices vm fes) = vm ` (fst ` set fes \<union> snd ` set fes)"
  by (induction fes) (auto simp: outIndices_def)

lemma nth_outIndices:
  "j < length fes \<Longrightarrow>
     outIndices vm fes ! (2 * j) = vm (fst (fes ! j)) \<and>
     outIndices vm fes ! (2 * j + 1) = vm (snd (fes ! j))"
proof (induction fes arbitrary: j)
  case Nil
  then show ?case by simp
next
  case (Cons e fes)
  obtain a b where e: "e = (a, b)" by (cases e)
  have unfold: "outIndices vm ((a, b) # fes) = vm a # vm b # outIndices vm fes"
    by (simp add: outIndices_def)
  show ?case
  proof (cases j)
    case 0
    then show ?thesis by (simp add: unfold e)
  next
    case (Suc k)
    then have "k < length fes" using Cons.prems by simp
    from Cons.IH[OF this] show ?thesis by (simp add: unfold Suc e)
  qed
qed

lemma getVertex_coords:
  "(coords ps v ! 0, coords ps v ! 1, coords ps v ! 2) = getVertex ps v"
  by (cases "getVertex ps v") (simp add: coords_def)

text \<open>
  Claim C5. In the result, the vertex array holds three numbers per vertex; every entry of
  the edge-index array is the number of a vertex of that array, and every vertex of the
  array is referenced by at least one entry of the edge-index array. The two entries
  written for a kept edge name the vertices that carry the coordinates of its two ends.
\<close>

theorem output_indices_valid:
  "length (result.vertices (extractFrom zs m os)) mod 3 = 0 \<and>
   (\<forall>x \<in> set (result.indices (extractFrom zs m os)).
      \<exists>i. x = Some i \<and> i < length (result.vertices (extractFrom zs m os)) div 3) \<and>
   (\<forall>i < length (result.vertices (extractFrom zs m os)) div 3.
      Some i \<in> set (result.indices (extractFrom zs m os))) \<and>
   (\<forall>j < length (fstate.featureEdges (filterEdges zs os m)).
      \<exists>ia ib.
        result.indices (extractFrom zs m os) ! (2 * j) = Some ia \<and>
        result.indices (extractFrom zs m os) ! (2 * j + 1) = Some ib \<and>
        (result.vertices (extractFrom zs m os) ! (3 * ia),
         result.vertices (extractFrom zs m os) ! (3 * ia + 1),
         result.vertices (extractFrom zs m os) ! (3 * ia + 2)) =
          getVertex (positions m) (fst (fstate.featureEdges (filterEdges zs os m) ! j)) \<and>
        (result.vertices (extractFrom zs m os) ! (3 * ib),
         result.vertices (extractFrom zs m os) ! (3 * ib + 1),
         result.vertices (extractFrom zs m os) ! (3 * ib + 2)) =
          getVertex (positions m) (snd (fstate.featureEdges (filterEdges zs os m) ! j)))"
proof -
  let ?fes = "fstate.featureEdges (filterEdges zs os m)"
  let ?used = "usedVertices ?fes"
  let ?c = "compactVertices (positions m) ?used"
  let ?V = "result.vertices (extractFrom zs m os)"
  let ?I = "result.indices (extractFrom zs m os)"
  have len: "length ?V = 3 * length ?used"
    by (simp add: result_vertices compactVertices_length)
  have idx: "set ?I = vertexMap ?c ` set ?used"
    by (simp add: result_indices set_outIndices set_usedVertices)
  have get: "vertexMap ?c (?used ! i) = Some i" if "i < length ?used" for i
    using compactVertices_map[OF distinct_usedVertices that] .
  have triple: "(?V ! (3 * i), ?V ! (3 * i + 1), ?V ! (3 * i + 2)) =
      getVertex (positions m) (?used ! i)" if "i < length ?used" for i
    using compactVertices_coords[OF that, of 0 "positions m"]
      compactVertices_coords[OF that, of 1 "positions m"]
      compactVertices_coords[OF that, of 2 "positions m"]
      getVertex_coords[of "positions m" "?used ! i"]
    by (simp add: result_vertices)
  have valid: "\<exists>i. x = Some i \<and> i < length ?V div 3" if "x \<in> set ?I" for x
  proof -
    from that obtain v where v: "v \<in> set ?used" "x = vertexMap ?c v"
      unfolding idx by blast
    then obtain i where i: "i < length ?used" "?used ! i = v"
      by (auto simp: in_set_conv_nth)
    with v get[of i] have "x = Some i" by simp
    with i(1) show ?thesis by (simp add: len)
  qed
  have covered: "Some i \<in> set ?I" if "i < length ?V div 3" for i
  proof -
    from that have i: "i < length ?used" by (simp add: len)
    then have "?used ! i \<in> set ?used" by simp
    then have "vertexMap ?c (?used ! i) \<in> set ?I"
      unfolding idx by blast
    with get[OF i] show ?thesis by simp
  qed
  have remap: "\<exists>i. vertexMap ?c v = Some i \<and>
      (?V ! (3 * i), ?V ! (3 * i + 1), ?V ! (3 * i + 2)) = getVertex (positions m) v"
    if "v \<in> set ?used" for v
  proof -
    from that obtain i where i: "i < length ?used" "?used ! i = v"
      by (auto simp: in_set_conv_nth)
    with get[of i] triple[of i] show ?thesis by auto
  qed
  have ends: "\<exists>ia ib. ?I ! (2 * j) = Some ia \<and> ?I ! (2 * j + 1) = Some ib \<and>
      (?V ! (3 * ia), ?V ! (3 * ia + 1), ?V ! (3 * ia + 2)) =
        getVertex (positions m) (fst (?fes ! j)) \<and>
      (?V ! (3 * ib), ?V ! (3 * ib + 1), ?V ! (3 * ib + 2)) =
        getVertex (positions m) (snd (?fes ! j))" if "j < length ?fes" for j
  proof -
    have "?fes ! j \<in> set ?fes" using that by simp
    then have "fst (?fes ! j) \<in> set ?used" "snd (?fes ! j) \<in> set ?used"
      by (auto simp: set_usedVertices)
    from remap[OF this(1)] remap[OF this(2)] nth_outIndices[OF that, of "vertexMap ?c"]
    show ?thesis
      by (auto simp: result_indices)
  qed
  show ?thesis
    using len valid covered ends by simp
qed

lemma len_flat:
  "edgeLen flatTriangle ''0_1'' = Fin 3"
  "edgeLen flatTriangle ''1_2'' = Fin 5"
  "edgeLen flatTriangle ''0_2'' = Fin 4"
  by (simp_all add: edgeLen_def ends_01 ends_12 ends_02 flatTriangle_def pos_at_def dist_vec_def
      sqrt_squares)

lemma mid_flat:
  "edgeMid flatTriangle ''0_1'' = (Fin (3 / 2), Fin 0, Fin 0)"
  "edgeMid flatTriangle ''1_2'' = (Fin (3 / 2), Fin 2, Fin 0)"
  "edgeMid flatTriangle ''0_2'' = (Fin 0, Fin 2, Fin 0)"
  by (simp_all add: edgeMid_def ends_01 ends_12 ends_02 flatTriangle_def pos_at_def)

lemma kept_flatTriangle:
  "fstate.featureEdges (filterEdges ZONES defaults flatTriangle) =
     [(Some 0, Some (Suc 0)), (Some (Suc 0), Some 2), (Some 0, Some 2)]"
  by (simp add: run_featureEdges edges_flatTriangle classify_def keptVerdict_def len_flat mid_flat
      minLength_outside ends_01 ends_12 ends_02 defaults_def)

lemma used_flatTriangle:
  "usedVertices [(Some 0, Some (Suc 0)), (Some (Suc 0), Some 2), (Some 0, Some 2)] =
     [Some 0, Some (Suc 0), Some 2]"
  by (simp add: usedVertices_def addUsed_def)

lemma indices_flatTriangle:
  "result.indices (extractFrom ZONES flatTriangle defaults) =
     [Some 0, Some 1, Some 1, Some 2, Some 0, Some 2]"
  unfolding result_indices kept_flatTriangle used_flatTriangle
  by (simp add: compactVertices_def compactStep_fields outIndices_def)

lemma vertices_flatTriangle:
  "result.vertices (extractFrom ZONES flatTriangle defaults) =
     map Fin [0, 0, 0, 3, 0, 0, 0, 4, 0]"
  unfolding result_vertices kept_flatTriangle used_flatTriangle
  by (simp add: compactVertices_def compactStep_fields coords_def flatTriangle_def pos_at_def)

theorem output_indices_valid_witness:
  "result.indices (extractFrom ZONES flatTriangle defaults) =
     [Some 0, Some 1, Some 1, Some 2, Some 0, Some 2] \<and>
   length (result.vertices (extractFrom ZONES flatTriangle defaults)) div 3 = 3 \<and>
   length (fstate.featureEdges (filterEdges ZONES defaults flatTriangle)) = 3 \<and>
   (\<exists>i. Some 2 = Some i \<and> i < length (result.vertices (extractFrom ZONES flatTriangle defaults)) div 3) \<and>
   Some 2 \<in> set (result.indices (extractFrom ZONES flatTriangle defaults)) \<and>
   (\<exists>ia ib.
      result.indices (extractFrom ZONES flatTriangle defaults) ! (2 * 1) = Some ia \<and>
      result.indices (extractFrom ZONES flatTriangle defaults) ! (2 * 1 + 1) = Some ib \<and>
      (result.vertices (extractFrom ZONES flatTriangle defaults) ! (3 * ia),
       result.vertices (extractFrom ZONES flatTriangle defaults) ! (3 * ia + 1),
       result.vertices (extractFrom ZONES flatTriangle defaults) ! (3 * ia + 2)) =
        getVertex (positions flatTriangle)
          (fst (fstate.featureEdges (filterEdges ZONES defaults flatTriangle) ! 1)) \<and>
      (result.vertices (extractFrom ZONES flatTriangle defaults) ! (3 * ib),
       result.vertices (extractFrom ZONES flatTriangle defaults) ! (3 * ib + 1),
       result.vertices (extractFrom ZONES flatTriangle defaults) ! (3 * ib + 2)) =
        getVertex (positions flatTriangle)
          (snd (fstate.featureEdges (filterEdges ZONES defaults flatTriangle) ! 1)))"
proof -
  note inst = output_indices_valid[of ZONES flatTriangle defaults]
  have n: "length (result.vertices (extractFrom ZONES flatTriangle defaults)) div 3 = 3"
    by (simp add: vertices_flatTriangle)
  have k: "length (fstate.featureEdges (filterEdges ZONES defaults flatTriangle)) = 3"
    by (simp add: kept_flatTriangle)
  have mem: "Some 2 \<in> set (result.indices (extractFrom ZONES flatTriangle defaults))"
    by (simp add: indices_flatTriangle)
  have a: "\<exists>i. Some 2 = Some i \<and>
      i < length (result.vertices (extractFrom ZONES flatTriangle defaults)) div 3"
    using inst mem by blast
  have "(2::nat) < length (result.vertices (extractFrom ZONES flatTriangle defaults)) div 3"
    by (simp add: n)
  then have b: "Some 2 \<in> set (result.indices (extractFrom ZONES flatTriangle defaults))"
    using inst by blast
  have "(1::nat) < length (fstate.featureEdges (filterEdges ZONES defaults flatTriangle))"
    by (simp add: k)
  then have c: "\<exists>ia ib.
      result.indices (extractFrom ZONES flatTriangle defaults) ! (2 * 1) = Some ia \<and>
      result.indices (extractFrom ZONES flatTriangle defaults) ! (2 * 1 + 1) = Some ib \<and>
      (result.vertices (extractFrom ZONES flatTriangle defaults) ! (3 * ia),
       result.vertices (extractFrom ZONES flatTriangle defaults) ! (3 * ia + 1),
       result.vertices (extractFrom ZONES flatTriangle defaults) ! (3 * ia + 2)) =
        getVertex (positions flatTriangle)
          (fst (fstate.featureEdges (filterEdges ZONES defaults flatTriangle) ! 1)) \<and>
      (result.vertices (extractFrom ZONES flatTriangle defaults) ! (3 * ib),
       result.vertices (extractFrom ZONES flatTriangle defaults) ! (3 * ib + 1),
       result.vertices (extractFrom ZONES flatTriangle defaults) ! (3 * ib + 2)) =
        getVertex (positions flatTriangle)
          (snd (fstate.featureEdges (filterEdges ZONES defaults flatTriangle) ! 1))"
    using inst by blast
  from indices_flatTriangle n k a b c show ?thesis
    by blast
qed

subsection \<open>Claims on the command line and the loader\<close>

lemma decode_samples:
  "decodeF32 [0, 0, 0, 0] = Fin 0" "decodeF32 [0, 0, 64, 64] = Fin 3"
  "decodeF32 [0, 0, 128, 64] = Fin 4"
  by (simp_all add: decodeF32_def decodeU32_def Let_def)

lemma upt_9: "[0 ..< 9] = [0, 1, 2, 3, 4, 5, 6, 7, 8]"
  by (simp add: upt_rec)

lemma upt_3: "[0 ..< 3] = [0, 1, 2]"
  by (simp add: upt_rec)

lemma triangle_positions:
  "typedArray 4 decodeF32 triangleBytes 0 (Len 9) = Inr (map Fin [0, 0, 0, 3, 0, 0, 0, 4, 0])"
  by (simp add: typedArray_def elements_def triangleBytes_def upt_9 decode_samples)

lemma triangle_indices:
  "typedArray 2 decodeU16 triangleBytes 36 (Len 3) = Inr [0, 1, 2]"
  by (simp add: typedArray_def elements_def triangleBytes_def upt_3 decodeU16_def)

lemma andThen_simps:
  "andThen (Inl e) f = Inl e" "andThen (Inr x) f = f x"
  by (simp_all add: andThen_def)

lemma orThrow_simps:
  "orThrow e None = Inl e" "orThrow e (Some x) = Inr x"
  by (simp_all add: orThrow_def)

lemma andThen_Inr_iff:
  "andThen r f = Inr y \<longleftrightarrow> (\<exists>x. r = Inr x \<and> f x = Inr y)"
  by (cases r) (simp_all add: andThen_def)

lemma orThrow_Inr_iff: "orThrow e v = Inr x \<longleftrightarrow> v = Some x"
  by (cases v) (simp_all add: orThrow_def)

lemma elementAt_Some_iff:
  "elementAt xs (Some n) = Some x \<longleftrightarrow> n < length xs \<and> xs ! n = x"
  by (auto simp: elementAt_def)

lemma indexArray_Inr:
  "indexArray ct buffer off len = Inr is \<Longrightarrow> ct = Some 5123 \<or> ct = Some 5125"
  by (auto simp: indexArray_def split: if_splits)

lemma load_success_layout:
  assumes "readJson w path = Inr g" and "loadGLTF w (Some path) = Inr m"
  shows "\<exists>bs accs views. buffers g = Some bs \<and> bs \<noteq> [] \<and> accessors g = Some accs \<and>
      2 \<le> length accs \<and> bufferViews g = Some views \<and>
      (componentType (accs ! 1) = Some 5123 \<or> componentType (accs ! 1) = Some 5125)"
proof -
  from assms(2) obtain bs decl accs views idxAccessor buffer off len ixs where
    f: "buffers g = Some bs" "elementAt bs (Some 0) = Some decl" "accessors g = Some accs"
      "bufferViews g = Some views" "elementAt accs (Some 1) = Some idxAccessor"
      "indexArray (componentType idxAccessor) buffer off len = Inr ixs"
    unfolding loadGLTF_def by (auto simp: andThen_Inr_iff orThrow_Inr_iff assms(1))
  from f(2) have "bs \<noteq> []" by (auto simp: elementAt_Some_iff)
  moreover from f(5) have "2 \<le> length accs" "accs ! 1 = idxAccessor"
    by (auto simp: elementAt_Some_iff)
  moreover note indexArray_Inr[OF f(6)]
  ultimately show ?thesis using f(1,3,4) by auto
qed

lemma load_triangle:
  "loadGLTF (worldOf triangleDoc) (Some ''public/sr71.gltf'') = Inr flatTriangle"
  by (simp add: loadGLTF_def worldOf_def triangleDoc_def andThen_simps orThrow_simps
      elementAt_def orZero_def lengthOfCount_def indexArray_def triangle_positions
      triangle_indices flatTriangle_def)

lemma typedArray_at_NaN: "typedArray 4 dec buf 0 LenNaN = Inr []"
  by (simp add: typedArray_def)

lemma load_noCount:
  "loadGLTF (worldOf noCountDoc) (Some ''public/sr71.gltf'') =
     Inr \<lparr>positions = [], indices = [0, 1, 2], vertexCount = None, triangleCount = Fin 1\<rparr>"
  by (simp add: loadGLTF_def worldOf_def noCountDoc_def andThen_simps orThrow_simps
      elementAt_def orZero_def lengthOfCount_def indexArray_def triangle_indices
      typedArray_at_NaN)


lemma parseArgs_missing:
  "parseArgs pf [''--threshold''] = defaults\<lparr>opts.threshold := pf None\<rparr>"
  by (simp add: parseArgs_def argValue_def)

lemma run_cases:
  "run pf w args =
     (case loadGLTF w (inputPath (parseArgs pf args)) of
        Inl e \<Rightarrow> Inl e
      | Inr m \<Rightarrow>
          (case outputPath (parseArgs pf args) of
             None \<Rightarrow> Inl TypeError
           | Some p \<Rightarrow>
               (case writeFile w p of
                  Some e \<Rightarrow> Inl e
                | None \<Rightarrow> Inr (p, extractFrom ZONES m (parseArgs pf args)))))"
  by (simp add: run_def extractFeatureEdges_def andThen_def orThrow_def Let_def
      split: sum.split option.split)

lemma run_with:
  assumes "parseArgs pf args = os" and "inputPath os = Some i" and "outputPath os = Some p"
    and "loadGLTF w (Some i) = Inr m" and "writeFile w p = None"
  shows "run pf w args = Inr (p, extractFrom ZONES m os)"
  using assms by (simp add: run_cases)

lemma writeFile_worldOf: "writeFile (worldOf doc) p = None"
  by (simp add: worldOf_def)

lemma default_paths:
  "inputPath (defaults\<lparr>opts.threshold := t\<rparr>) = Some ''public/sr71.gltf''"
  "outputPath (defaults\<lparr>opts.threshold := t\<rparr>) = Some ''public/sr71-wireframe.json''"
  "inputPath (defaults\<lparr>opts.minLength := t\<rparr>) = Some ''public/sr71.gltf''"
  "outputPath (defaults\<lparr>opts.minLength := t\<rparr>) = Some ''public/sr71-wireframe.json''"
  "inputPath (defaults\<lparr>opts.featureLength := t\<rparr>) = Some ''public/sr71.gltf''"
  "outputPath (defaults\<lparr>opts.featureLength := t\<rparr>) = Some ''public/sr71-wireframe.json''"
  "inputPath defaults = Some ''public/sr71.gltf''"
  "outputPath defaults = Some ''public/sr71-wireframe.json''"
  by (simp_all add: defaults_def)






lemma load_no_buffers:
  assumes "readJson w path = Inr g" and "buffers g = None \<or> buffers g = Some []"
  shows "loadGLTF w (Some path) = Inl TypeError"
  using assms(2)
  by (auto simp: loadGLTF_def andThen_simps orThrow_simps assms(1) elementAt_def)

lemma load_unsupported:
  assumes "readJson w path = Inr g"
    and "buffers g = Some bs" and "bs \<noteq> []" and "uri (bs ! 0) = Some u"
    and "readBin w path u = Inr buffer"
    and "accessors g = Some accs" and "2 \<le> length accs" and "bufferViews g = Some views"
    and "elementAt views (accessor.bufferView (accs ! 0)) = Some posView"
    and "typedArray 4 decodeF32 (arrayBuffer buffer)
           (nodeBuffer.byteOffset buffer +
            (orZero (bufferView.byteOffset posView) + orZero (accessor.byteOffset (accs ! 0))))
           (lengthOfCount LenNaN (map_option (\<lambda>n. n * 3) (count (accs ! 0)))) = Inr ps"
    and "elementAt views (accessor.bufferView (accs ! 1)) = Some idxView"
    and "componentType (accs ! 1) \<noteq> Some 5123" and "componentType (accs ! 1) \<noteq> Some 5125"
  shows "loadGLTF w (Some path) = Inl (UnsupportedIndexType (componentType (accs ! 1)))"
proof -
  have e0: "elementAt bs (Some 0) = Some (bs ! 0)"
    using assms(3) by (simp add: elementAt_def)
  have a0: "elementAt accs (Some 0) = Some (accs ! 0)"
    using assms(7) by (auto simp: elementAt_def)
  have a1: "elementAt accs (Some 1) = Some (accs ! 1)"
    using assms(7) by (auto simp: elementAt_def)
  have ix: "indexArray (componentType (accs ! 1)) buf off len =
      Inl (UnsupportedIndexType (componentType (accs ! 1)))" for buf off len
    using assms(12,13) by (simp add: indexArray_def)
  show ?thesis
    unfolding loadGLTF_def
    by (simp only: orThrow_simps andThen_simps assms(1,2,4,5,6,8,9,10,11) e0 a0 a1 ix)
qed

lemma run_aborts:
  "loadGLTF w (inputPath (parseArgs pf args)) = Inl e \<Longrightarrow> run pf w args = Inl e"
  by (simp add: run_cases)

text \<open>
  Claim C7, as amended. The loader fails with a type error of the runtime when the
  \<^verbatim>\<open>buffers\<close> array of the container is absent or empty, and returns a mesh only
  when the \<^verbatim>\<open>buffers\<close>, \<^verbatim>\<open>accessors\<close> (two at least) and \<^verbatim>\<open>bufferViews\<close> arrays
  are present and the index component type is 5123 or 5125. When the layout is present
  and readable up to the index accessor and the index component type is neither of the
  two, the loader fails with its error \<^verbatim>\<open>Unsupported index component type\<close>. A
  failure of the loader aborts the run before anything is written.
\<close>

theorem loader_errors:
  assumes "readJson w path = Inr g"
  shows "(buffers g = None \<or> buffers g = Some [] \<longrightarrow> loadGLTF w (Some path) = Inl TypeError) \<and>
     (\<forall>m. loadGLTF w (Some path) = Inr m \<longrightarrow>
        (\<exists>bs accs views. buffers g = Some bs \<and> bs \<noteq> [] \<and> accessors g = Some accs \<and>
           2 \<le> length accs \<and> bufferViews g = Some views \<and>
           (componentType (accs ! 1) = Some 5123 \<or> componentType (accs ! 1) = Some 5125))) \<and>
     (\<forall>bs u buffer accs views posView ps idxView.
        buffers g = Some bs \<and> bs \<noteq> [] \<and> uri (bs ! 0) = Some u \<and>
        readBin w path u = Inr buffer \<and>
        accessors g = Some accs \<and> 2 \<le> length accs \<and> bufferViews g = Some views \<and>
        elementAt views (accessor.bufferView (accs ! 0)) = Some posView \<and>
        typedArray 4 decodeF32 (arrayBuffer buffer)
          (nodeBuffer.byteOffset buffer +
           (orZero (bufferView.byteOffset posView) + orZero (accessor.byteOffset (accs ! 0))))
          (lengthOfCount LenNaN (map_option (\<lambda>n. n * 3) (count (accs ! 0)))) = Inr ps \<and>
        elementAt views (accessor.bufferView (accs ! 1)) = Some idxView \<and>
        componentType (accs ! 1) \<noteq> Some 5123 \<and> componentType (accs ! 1) \<noteq> Some 5125 \<longrightarrow>
        loadGLTF w (Some path) = Inl (UnsupportedIndexType (componentType (accs ! 1)))) \<and>
     (\<forall>pf args e. loadGLTF w (inputPath (parseArgs pf args)) = Inl e \<longrightarrow> run pf w args = Inl e)"
proof (intro conjI allI impI)
  assume "buffers g = None \<or> buffers g = Some []"
  then show "loadGLTF w (Some path) = Inl TypeError"
    by (rule load_no_buffers[OF assms])
next
  fix m assume "loadGLTF w (Some path) = Inr m"
  then show "\<exists>bs accs views. buffers g = Some bs \<and> bs \<noteq> [] \<and> accessors g = Some accs \<and>
           2 \<le> length accs \<and> bufferViews g = Some views \<and>
           (componentType (accs ! 1) = Some 5123 \<or> componentType (accs ! 1) = Some 5125)"
    by (rule load_success_layout[OF assms])
next
  fix bs u buffer accs views posView ps idxView
  assume "buffers g = Some bs \<and> bs \<noteq> [] \<and> uri (bs ! 0) = Some u \<and>
        readBin w path u = Inr buffer \<and>
        accessors g = Some accs \<and> 2 \<le> length accs \<and> bufferViews g = Some views \<and>
        elementAt views (accessor.bufferView (accs ! 0)) = Some posView \<and>
        typedArray 4 decodeF32 (arrayBuffer buffer)
          (nodeBuffer.byteOffset buffer +
           (orZero (bufferView.byteOffset posView) + orZero (accessor.byteOffset (accs ! 0))))
          (lengthOfCount LenNaN (map_option (\<lambda>n. n * 3) (count (accs ! 0)))) = Inr ps \<and>
        elementAt views (accessor.bufferView (accs ! 1)) = Some idxView \<and>
        componentType (accs ! 1) \<noteq> Some 5123 \<and> componentType (accs ! 1) \<noteq> Some 5125"
  then show "loadGLTF w (Some path) = Inl (UnsupportedIndexType (componentType (accs ! 1)))"
    using load_unsupported[OF assms, of bs u buffer accs views posView ps idxView] by blast
next
  fix pf args e
  assume "loadGLTF w (inputPath (parseArgs pf args)) = Inl e"
  then show "run pf w args = Inl e"
    by (rule run_aborts)
qed

lemma readJson_worldOf: "readJson (worldOf doc) ''public/sr71.gltf'' = Inr doc"
  by (simp add: worldOf_def)

lemma parseArgs_empty: "parseArgs pf [] = defaults"
  by (simp add: parseArgs_def)

theorem loader_errors_witness:
  "loadGLTF (worldOf noBuffersDoc) (Some ''public/sr71.gltf'') = Inl TypeError \<and>
   loadGLTF (worldOf byteIndexDoc) (Some ''public/sr71.gltf'') =
     Inl (UnsupportedIndexType (Some 5121)) \<and>
   run parseFloat (worldOf byteIndexDoc) [] = Inl (UnsupportedIndexType (Some 5121)) \<and>
   loadGLTF (worldOf triangleDoc) (Some ''public/sr71.gltf'') = Inr flatTriangle \<and>
   accessors triangleDoc \<noteq> None"
proof -
  have a: "loadGLTF (worldOf noBuffersDoc) (Some ''public/sr71.gltf'') = Inl TypeError"
    using loader_errors[OF readJson_worldOf[of noBuffersDoc]]
    by (simp add: noBuffersDoc_def)
  let ?accs = "[\<lparr>bufferView = Some 0, byteOffset = None, count = Some 3, componentType = Some 5126\<rparr>,
         \<lparr>bufferView = Some 1, byteOffset = None, count = Some 3, componentType = Some 5121\<rparr>]"
  let ?views = "[\<lparr>byteOffset = None\<rparr>, \<lparr>byteOffset = Some 36\<rparr>]"
  have h: "buffers byteIndexDoc = Some [\<lparr>uri = Some ''sr71.bin''\<rparr>] \<and>
      [\<lparr>uri = Some ''sr71.bin''\<rparr>] \<noteq> [] \<and> uri ([\<lparr>uri = Some ''sr71.bin''\<rparr>] ! 0) = Some ''sr71.bin'' \<and>
      readBin (worldOf byteIndexDoc) ''public/sr71.gltf'' ''sr71.bin'' =
        Inr \<lparr>arrayBuffer = triangleBytes, byteOffset = 0\<rparr> \<and>
      accessors byteIndexDoc = Some ?accs \<and> 2 \<le> length ?accs \<and>
      bufferViews byteIndexDoc = Some ?views \<and>
      elementAt ?views (accessor.bufferView (?accs ! 0)) = Some \<lparr>byteOffset = None\<rparr> \<and>
      typedArray 4 decodeF32 (arrayBuffer \<lparr>arrayBuffer = triangleBytes, byteOffset = 0\<rparr>)
        (nodeBuffer.byteOffset \<lparr>arrayBuffer = triangleBytes, byteOffset = 0\<rparr> +
         (orZero (bufferView.byteOffset \<lparr>byteOffset = None\<rparr>) +
          orZero (accessor.byteOffset (?accs ! 0))))
        (lengthOfCount LenNaN (map_option (\<lambda>n. n * 3) (count (?accs ! 0)))) =
        Inr (map Fin [0, 0, 0, 3, 0, 0, 0, 4, 0]) \<and>
      elementAt ?views (accessor.bufferView (?accs ! 1)) = Some \<lparr>byteOffset = Some 36\<rparr> \<and>
      componentType (?accs ! 1) \<noteq> Some 5123 \<and> componentType (?accs ! 1) \<noteq> Some 5125"
    by (simp add: byteIndexDoc_def worldOf_def elementAt_def orZero_def lengthOfCount_def
        triangle_positions)
  have "loadGLTF (worldOf byteIndexDoc) (Some ''public/sr71.gltf'') =
      Inl (UnsupportedIndexType (componentType (?accs ! 1)))"
    using loader_errors[OF readJson_worldOf[of byteIndexDoc]] h by blast
  then have b: "loadGLTF (worldOf byteIndexDoc) (Some ''public/sr71.gltf'') =
      Inl (UnsupportedIndexType (Some 5121))"
    by simp
  have "loadGLTF (worldOf byteIndexDoc) (inputPath (parseArgs parseFloat [])) =
      Inl (UnsupportedIndexType (Some 5121))"
    by (simp add: parseArgs_empty default_paths b)
  then have c: "run parseFloat (worldOf byteIndexDoc) [] = Inl (UnsupportedIndexType (Some 5121))"
    using loader_errors[OF readJson_worldOf[of byteIndexDoc]] by blast
  have d: "accessors triangleDoc \<noteq> None"
    using loader_errors[OF readJson_worldOf[of triangleDoc]] load_triangle by blast
  from a b c d load_triangle show ?thesis
    by blast
qed

theorem loader_errors_counterexample:
  "accessors noCountDoc = Some
     [\<lparr>bufferView = Some 0, byteOffset = None, count = None, componentType = Some 5126\<rparr>,
      \<lparr>bufferView = Some 1, byteOffset = None, count = Some 3, componentType = Some 5123\<rparr>] \<and>
   loadGLTF (worldOf noCountDoc) (Some ''public/sr71.gltf'') =
     Inr \<lparr>positions = [], indices = [0, 1, 2], vertexCount = None, triangleCount = Fin 1\<rparr> \<and>
   run parseFloat (worldOf noCountDoc) [] =
     Inr (''public/sr71-wireframe.json'',
          extractFrom ZONES
            \<lparr>positions = [], indices = [0, 1, 2], vertexCount = None, triangleCount = Fin 1\<rparr>
            defaults)"
proof -
  have "run parseFloat (worldOf noCountDoc) [] =
     Inr (''public/sr71-wireframe.json'',
          extractFrom ZONES
            \<lparr>positions = [], indices = [0, 1, 2], vertexCount = None, triangleCount = Fin 1\<rparr>
            defaults)"
    by (rule run_with[OF parseArgs_empty _ _ load_noCount writeFile_worldOf])
      (simp_all add: default_paths)
  then show ?thesis
    using load_noCount by (simp add: noCountDoc_def)
qed

end
